theory Spec2Isabelle
  imports Complex_Main "HOL-Library.Char_ord" "HOL-Library.List_Lexorder"
begin

section \<open>JavaScript values\<close>

text \<open>
  The services work on rows, which are JavaScript objects. Arrays, objects and dates are
  reference values: \<open>===\<close> compares their identity, not their content. Every reference
  value therefore carries a reference. A reference of the input is \<open>Addr n\<close>; an object
  created by the modelled code is named after the operation that creates it and the
  references it is created from (\<open>New\<close>), so that it differs from every object of the
  input. Numbers are rationals plus \<open>NaN\<close> (infinities, negative zero and rounding of
  doubles are outside the model), strings are lists of 8-bit characters, objects are
  association lists in insertion order, and the prototype chain is not modelled: only
  own properties exist.
\<close>

datatype ref = Addr nat | New string "ref option list"

datatype jsval =
    JUndefined
  | JNull
  | JBool bool
  | JNum rat
  | JNaN
  | JStr string
  | JDate ref int
  | JArr ref "jsval list"
  | JObj ref "(string \<times> jsval) list"

text \<open>
  What the runtime prints for a number that is not a small integer and for a date
  depends on the engine and on the time zone; the two conversions are parameters.
\<close>

record js_runtime =
  number_to_string :: "rat \<Rightarrow> string"
  date_to_string :: "int \<Rightarrow> string"
  date_to_iso :: "int \<Rightarrow> string"

fun ref_of :: "jsval \<Rightarrow> ref option" where
  "ref_of (JDate r t) = Some r"
| "ref_of (JArr r xs) = Some r"
| "ref_of (JObj r fs) = Some r"
| "ref_of v = None"

fun truthy :: "jsval \<Rightarrow> bool" where
  "truthy JUndefined = False"
| "truthy JNull = False"
| "truthy (JBool b) = b"
| "truthy (JNum q) = (q \<noteq> 0)"
| "truthy JNaN = False"
| "truthy (JStr s) = (s \<noteq> [])"
| "truthy v = True"

fun is_nullish :: "jsval \<Rightarrow> bool" where
  "is_nullish JUndefined = True"
| "is_nullish JNull = True"
| "is_nullish v = False"

fun is_array :: "jsval \<Rightarrow> bool" where
  "is_array (JArr r xs) = True"
| "is_array v = False"

fun is_date :: "jsval \<Rightarrow> bool" where
  "is_date (JDate r t) = True"
| "is_date v = False"

text \<open>\<open>typeof v === 'object'\<close>: true for null, dates, arrays and objects.\<close>

fun typeof_object :: "jsval \<Rightarrow> bool" where
  "typeof_object JNull = True"
| "typeof_object (JDate r t) = True"
| "typeof_object (JArr r xs) = True"
| "typeof_object (JObj r fs) = True"
| "typeof_object v = False"

text \<open>\<open>a === b\<close>.\<close>

fun strict_eq :: "jsval \<Rightarrow> jsval \<Rightarrow> bool" where
  "strict_eq JUndefined JUndefined = True"
| "strict_eq JNull JNull = True"
| "strict_eq (JBool a) (JBool b) = (a = b)"
| "strict_eq (JNum a) (JNum b) = (a = b)"
| "strict_eq (JStr a) (JStr b) = (a = b)"
| "strict_eq (JDate r s) (JDate r' t) = (r = r')"
| "strict_eq (JArr r xs) (JArr r' ys) = (r = r')"
| "strict_eq (JObj r fs) (JObj r' gs) = (r = r')"
| "strict_eq a b = False"

text \<open>The equality of \<open>Set\<close> and \<open>Map\<close> keys: \<open>===\<close>, except that NaN is itself.\<close>

fun same_value_zero :: "jsval \<Rightarrow> jsval \<Rightarrow> bool" where
  "same_value_zero JNaN JNaN = True"
| "same_value_zero a b = strict_eq a b"

subsection \<open>Strings and numbers\<close>

definition digit_char :: "nat \<Rightarrow> char" where
  "digit_char n = ''0123456789'' ! n"

fun show_nat :: "nat \<Rightarrow> string" where
  "show_nat n = (if n < 10 then [digit_char n] else show_nat (n div 10) @ [digit_char (n mod 10)])"

definition show_int :: "int \<Rightarrow> string" where
  "show_int i = (if i < 0 then CHR ''-'' # show_nat (nat (- i)) else show_nat (nat i))"

text \<open>\<open>parts.join(sep)\<close>.\<close>

fun join_with :: "string \<Rightarrow> string list \<Rightarrow> string" where
  "join_with sep [] = []"
| "join_with sep [x] = x"
| "join_with sep (x # y # ys) = x @ sep @ join_with sep (y # ys)"

text \<open>
  \<open>Number.prototype.toString\<close>: an integer below \<open>10^21\<close> in absolute value prints in
  decimal; what any other number prints is the runtime's.
\<close>

definition js_number_to_string :: "js_runtime \<Rightarrow> rat \<Rightarrow> string" where
  "js_number_to_string L q =
     (if of_int \<lfloor>q\<rfloor> = q \<and> \<bar>q\<bar> < 10 ^ 21 then show_int \<lfloor>q\<rfloor> else number_to_string L q)"

text \<open>\<open>String(v)\<close>. An array prints its elements joined by commas, null and undefined
  as the empty string; an object prints \<open>[object Object]\<close>.\<close>

fun js_String :: "js_runtime \<Rightarrow> jsval \<Rightarrow> string" where
  "js_String L JUndefined = ''undefined''"
| "js_String L JNull = ''null''"
| "js_String L (JBool b) = (if b then ''true'' else ''false'')"
| "js_String L (JNum q) = js_number_to_string L q"
| "js_String L JNaN = ''NaN''"
| "js_String L (JStr s) = s"
| "js_String L (JDate r t) = date_to_string L t"
| "js_String L (JArr r xs) =
     join_with '','' (map (\<lambda>x. if is_nullish x then [] else js_String L x) xs)"
| "js_String L (JObj r fs) = ''[object Object]''"

subsection \<open>Properties\<close>

text \<open>The index an array key names: a decimal numeral in canonical form.\<close>

definition is_digit :: "char \<Rightarrow> bool" where
  "is_digit c = (c \<in> set ''0123456789'')"

definition digit_val :: "char \<Rightarrow> nat" where
  "digit_val c = of_char c - 48"

definition read_nat :: "string \<Rightarrow> nat" where
  "read_nat s = foldl (\<lambda>n c. 10 * n + digit_val c) 0 s"

definition array_index :: "string \<Rightarrow> nat option" where
  "array_index k =
     (if k \<noteq> [] \<and> list_all is_digit k \<and> show_nat (read_nat k) = k then Some (read_nat k)
      else None)"

text \<open>The own enumerable properties, as \<open>Object.entries\<close> and the spread \<open>{...v}\<close> list
  them: the fields of an object, the indexed elements of an array or string.\<close>

fun indexed :: "nat \<Rightarrow> 'a list \<Rightarrow> (string \<times> 'a) list" where
  "indexed i [] = []"
| "indexed i (x # xs) = (show_nat i, x) # indexed (Suc i) xs"

fun own_entries :: "jsval \<Rightarrow> (string \<times> jsval) list" where
  "own_entries (JObj r fs) = fs"
| "own_entries (JArr r xs) = indexed 0 xs"
| "own_entries (JStr s) = indexed 0 (map (\<lambda>c. JStr [c]) s)"
| "own_entries v = []"

definition own_keys :: "jsval \<Rightarrow> string list" where
  "own_keys v = map fst (own_entries v)"

text \<open>\<open>v[k]\<close>: \<open>None\<close> is the TypeError of reading a property of null or undefined.\<close>

fun js_get :: "jsval \<Rightarrow> string \<Rightarrow> jsval option" where
  "js_get JUndefined k = None"
| "js_get JNull k = None"
| "js_get (JObj r fs) k = Some (case map_of fs k of None \<Rightarrow> JUndefined | Some v \<Rightarrow> v)"
| "js_get (JArr r xs) k =
     Some (if k = ''length'' then JNum (of_nat (length xs))
           else case array_index k of
                  None \<Rightarrow> JUndefined
                | Some i \<Rightarrow> if i < length xs then xs ! i else JUndefined)"
| "js_get (JStr s) k =
     Some (if k = ''length'' then JNum (of_nat (length s))
           else case array_index k of
                  None \<Rightarrow> JUndefined
                | Some i \<Rightarrow> if i < length s then JStr [s ! i] else JUndefined)"
| "js_get v k = Some JUndefined"

text \<open>\<open>v.hasOwnProperty(k)\<close> on a value that is not null or undefined.\<close>

fun has_own :: "jsval \<Rightarrow> string \<Rightarrow> bool" where
  "has_own (JObj r fs) k = (k \<in> set (map fst fs))"
| "has_own (JArr r xs) k =
     (k = ''length'' \<or> (case array_index k of None \<Rightarrow> False | Some i \<Rightarrow> i < length xs))"
| "has_own (JStr s) k =
     (k = ''length'' \<or> (case array_index k of None \<Rightarrow> False | Some i \<Rightarrow> i < length s))"
| "has_own v k = False"

text \<open>\<open>obj[k] = v\<close> on the field list: an existing field keeps its place.\<close>

fun obj_set :: "string \<Rightarrow> jsval \<Rightarrow> (string \<times> jsval) list \<Rightarrow> (string \<times> jsval) list" where
  "obj_set k v [] = [(k, v)]"
| "obj_set k v ((k', v') # fs) = (if k' = k then (k, v) # fs else (k', v') # obj_set k v fs)"

text \<open>\<open>{...a, ...b}\<close> on field lists.\<close>

definition obj_assign :: "(string \<times> jsval) list \<Rightarrow> (string \<times> jsval) list \<Rightarrow> (string \<times> jsval) list" where
  "obj_assign fs gs = foldl (\<lambda>acc (k, v). obj_set k v acc) fs gs"


section \<open>The join service\<close>

subsection \<open>Key paths\<close>

text \<open>\<open>s.indexOf(c)\<close>, with the length of \<open>s\<close> standing for \<open>-1\<close> when \<open>c\<close> is absent
  (the callers test \<open>includes\<close> first), and \<open>s.substring(a, b)\<close>, which swaps its
  bounds when they are out of order.\<close>

fun index_of :: "char \<Rightarrow> string \<Rightarrow> nat" where
  "index_of c [] = 0"
| "index_of c (x # xs) = (if x = c then 0 else Suc (index_of c xs))"

definition substring :: "nat \<Rightarrow> nat \<Rightarrow> string \<Rightarrow> string" where
  "substring a b s = take (max a b - min a b) (drop (min a b) s)"

text \<open>\<open>path.split('.')\<close>.\<close>

fun split_dot :: "string \<Rightarrow> string list" where
  "split_dot [] = [[]]"
| "split_dot (c # cs) =
     (if c = CHR ''.'' then [] # split_dot cs
      else case split_dot cs of [] \<Rightarrow> [[c]] | w # ws \<Rightarrow> (c # w) # ws)"

text \<open>\<open>parseInt(s, 10)\<close>: leading white space and a sign are skipped, the digits that
  follow are read, and \<open>None\<close> is NaN (no digit).\<close>

definition is_space :: "char \<Rightarrow> bool" where
  "is_space c = (c \<in> set [CHR '' '', CHR 0x09, CHR 0x0A, CHR 0x0B, CHR 0x0C, CHR 0x0D])"

definition parse_int :: "string \<Rightarrow> int option" where
  "parse_int s =
     (let t = dropWhile is_space s;
          neg = (t \<noteq> [] \<and> hd t = CHR ''-'');
          u = (if t \<noteq> [] \<and> (hd t = CHR ''-'' \<or> hd t = CHR ''+'') then tl t else t);
          ds = takeWhile is_digit u
      in if ds = [] then None
         else Some (if neg then - int (read_nat ds) else int (read_nat ds)))"

text \<open>One step of the \<open>reduce\<close> over the segments of a dotted path. \<open>None\<close> is the
  TypeError of \<open>current[propName]\<close> on null or undefined.\<close>

definition path_step :: "jsval \<Rightarrow> string \<Rightarrow> jsval option" where
  "path_step current key =
     (if CHR ''['' \<in> set key \<and> CHR '']'' \<in> set key then
        (let propName = substring 0 (index_of CHR ''['' key) key;
             indexStr = substring (index_of CHR ''['' key + 1) (index_of CHR '']'' key) key;
             index = parse_int indexStr
         in case js_get current propName of
              None \<Rightarrow> None
            | Some (JArr r xs) \<Rightarrow>
                (case index of
                   None \<Rightarrow> Some JNull
                 | Some i \<Rightarrow> Some (if 0 \<le> i \<and> nat i < length xs then xs ! nat i else JUndefined))
            | Some v \<Rightarrow> Some JNull)
      else if truthy current \<and> typeof_object current then
        (case js_get current key of
           None \<Rightarrow> None
         | Some v \<Rightarrow> Some (if v \<noteq> JUndefined then v else JNull))
      else Some JNull)"

fun path_reduce :: "jsval \<Rightarrow> string list \<Rightarrow> jsval option" where
  "path_reduce current [] = Some current"
| "path_reduce current (key # keys) =
     (case path_step current key of None \<Rightarrow> None | Some v \<Rightarrow> path_reduce v keys)"

text \<open>\<open>_getNestedProperty(obj, path)\<close>. A missing path is the empty string here; an
  exception inside the \<open>reduce\<close> is caught and gives null.\<close>

definition getNestedProperty :: "jsval \<Rightarrow> string \<Rightarrow> jsval" where
  "getNestedProperty obj path =
     (if \<not> truthy obj then JNull
      else if path = [] then JNull
      else if CHR ''.'' \<notin> set path then (case js_get obj path of None \<Rightarrow> JNull | Some v \<Rightarrow> v)
      else case path_reduce obj (split_dot path) of None \<Rightarrow> JNull | Some v \<Rightarrow> v)"

subsection \<open>Join conditions\<close>

record join_condition =
  leftKey :: string
  rightKey :: string
  comparator :: "(jsval \<Rightarrow> jsval \<Rightarrow> jsval) option"

datatype join_side = LeftSide | RightSide

datatype join_type = Inner | LeftJoin | RightJoin | FullJoin

text \<open>\<open>_createMultiConditionKey(row, joinConditions, side)\<close>.\<close>

definition createMultiConditionKey :: "js_runtime \<Rightarrow> jsval \<Rightarrow> join_condition list \<Rightarrow> join_side \<Rightarrow> string" where
  "createMultiConditionKey L row joinConditions side =
     (if \<not> truthy row then ''NULL''
      else join_with ''::''
             (map (\<lambda>condition.
                     let keyPath = (if side = LeftSide then leftKey condition else rightKey condition);
                         v = getNestedProperty row keyPath
                     in if v = JUndefined \<or> v = JNull then ''NULL'' else js_String L v)
                  joinConditions))"

text \<open>The callback of \<open>joinConditions.every\<close> in \<open>_compareJoinConditions\<close>.\<close>

definition compareCondition :: "join_condition \<Rightarrow> jsval \<Rightarrow> jsval \<Rightarrow> bool" where
  "compareCondition condition leftRow rightRow =
     (let leftValue = getNestedProperty leftRow (leftKey condition);
          rightValue = getNestedProperty rightRow (rightKey condition)
      in case comparator condition of
           Some f \<Rightarrow> truthy (f leftValue rightValue)
         | None \<Rightarrow>
             if leftValue = JNull \<or> leftValue = JUndefined then
               (rightValue = JNull \<or> rightValue = JUndefined)
             else if is_date leftValue \<and> is_date rightValue then
               (case (leftValue, rightValue) of
                  (JDate r s, JDate r' t) \<Rightarrow> s = t
                | _ \<Rightarrow> False)
             else if is_array leftValue \<and> is_array rightValue then
               (case (leftValue, rightValue) of
                  (JArr r xs, JArr r' ys) \<Rightarrow>
                    (if length xs \<noteq> length ys then False
                     else list_all (\<lambda>(x, y). strict_eq x y) (zip xs ys))
                | _ \<Rightarrow> False)
             else if typeof_object leftValue \<and> typeof_object rightValue then
               (if \<not> truthy leftValue \<or> \<not> truthy rightValue then strict_eq leftValue rightValue
                else
                  (let leftKeys = own_keys leftValue; rightKeys = own_keys rightValue
                   in if length leftKeys \<noteq> length rightKeys then False
                      else list_all
                             (\<lambda>key. has_own rightValue key \<and>
                                (case (js_get leftValue key, js_get rightValue key) of
                                   (Some a, Some b) \<Rightarrow> strict_eq a b
                                 | _ \<Rightarrow> False))
                             leftKeys))
             else strict_eq leftValue rightValue)"

definition compareJoinConditions :: "join_condition list \<Rightarrow> jsval \<Rightarrow> jsval \<Rightarrow> bool" where
  "compareJoinConditions joinConditions leftRow rightRow =
     (if \<not> truthy leftRow \<or> \<not> truthy rightRow then False
      else list_all (\<lambda>condition. compareCondition condition leftRow rightRow) joinConditions)"

subsection \<open>Merging two rows\<close>

definition starts_with_underscore :: "string \<Rightarrow> bool" where
  "starts_with_underscore k = (case k of [] \<Rightarrow> False | c # cs \<Rightarrow> c = CHR ''_'')"

text \<open>The body of the loop over \<open>Object.entries(rightRow)\<close> in \<open>_mergeRows\<close>, on the
  fields of \<open>result\<close>.\<close>

definition mergeField :: "(string \<times> jsval) list \<Rightarrow> string \<times> jsval \<Rightarrow> (string \<times> jsval) list" where
  "mergeField result entry =
     (let key = fst entry; val = snd entry
      in if starts_with_underscore key then result
         else case map_of result key of
                None \<Rightarrow> obj_set key val result
              | Some cur \<Rightarrow>
                  if strict_eq cur val then result
                  else if is_array cur \<and> is_array val then
                    (case (cur, val) of
                       (JArr r xs, JArr r' ys) \<Rightarrow>
                         obj_set key (JArr (New ''concat'' [Some r, Some r']) (xs @ ys)) result
                     | _ \<Rightarrow> result)
                  else if typeof_object cur \<and> typeof_object val \<and> cur \<noteq> JNull \<and> val \<noteq> JNull then
                    obj_set key
                      (JObj (New ''spread'' [ref_of cur, ref_of val])
                         (obj_assign (own_entries cur) (own_entries val)))
                      result
                  else obj_set (''right_'' @ key) val result)"

text \<open>A transform is a caller's function of the merged row and the two rows; \<open>None\<close>
  as its result is an exception.\<close>

type_synonym transform = "jsval \<Rightarrow> jsval \<Rightarrow> jsval \<Rightarrow> jsval option"

text \<open>The merge proper, before the transform: the object \<open>result\<close>.\<close>

definition mergedRow :: "jsval \<Rightarrow> jsval \<Rightarrow> jsval" where
  "mergedRow leftRow rightRow =
     JObj (New ''mergeRows'' [ref_of leftRow, ref_of rightRow])
       (let result = (if truthy leftRow then own_entries leftRow else [])
        in if truthy rightRow then foldl mergeField result (own_entries rightRow) else result)"

text \<open>\<open>_mergeRows(leftRow, rightRow, transform)\<close>.\<close>

definition mergeRows :: "jsval \<Rightarrow> jsval \<Rightarrow> transform option \<Rightarrow> jsval" where
  "mergeRows leftRow rightRow transform =
     (let result = mergedRow leftRow rightRow
      in case transform of
           None \<Rightarrow> result
         | Some f \<Rightarrow>
             (case f result leftRow rightRow of
                None \<Rightarrow> result
              | Some transformed \<Rightarrow> if truthy transformed then transformed else result))"


subsection \<open>The exact join\<close>

text \<open>A \<open>Set\<close> of rows, as the list of its members in insertion order.\<close>

definition set_has :: "jsval list \<Rightarrow> jsval \<Rightarrow> bool" where
  "set_has S v = list_ex (\<lambda>m. same_value_zero m v) S"

definition set_add :: "jsval list \<Rightarrow> jsval \<Rightarrow> jsval list" where
  "set_add S v = (if set_has S v then S else S @ [v])"

record join_state =
  joinedRows :: "jsval list"
  matchedRightRows :: "jsval list"

text \<open>The lookup map from the composite key to the right rows that have it.\<close>

definition buildLookupMap :: "js_runtime \<Rightarrow> jsval list \<Rightarrow> join_condition list \<Rightarrow> (string \<rightharpoonup> jsval list)" where
  "buildLookupMap L rightDataset joinConditions =
     foldl (\<lambda>lookupMap rightRow.
              let key = createMultiConditionKey L rightRow joinConditions RightSide
              in lookupMap(key \<mapsto> (case lookupMap key of None \<Rightarrow> [] | Some rs \<Rightarrow> rs) @ [rightRow]))
           Map.empty rightDataset"

definition markMatched :: "join_type \<Rightarrow> jsval \<Rightarrow> jsval list \<Rightarrow> jsval list" where
  "markMatched joinType rightRow matched =
     (if joinType = RightJoin \<or> joinType = FullJoin then set_add matched rightRow else matched)"

definition exactMatchStep :: "join_condition list \<Rightarrow> join_type \<Rightarrow> transform option \<Rightarrow> jsval \<Rightarrow>
    join_state \<Rightarrow> jsval \<Rightarrow> join_state" where
  "exactMatchStep joinConditions joinType transform leftRow st rightRow =
     (if compareJoinConditions joinConditions leftRow rightRow then
        \<lparr> joinedRows = joinedRows st @ [mergeRows leftRow rightRow transform],
          matchedRightRows = markMatched joinType rightRow (matchedRightRows st) \<rparr>
      else st)"

definition exactLeftStep :: "js_runtime \<Rightarrow> (string \<rightharpoonup> jsval list) \<Rightarrow> join_condition list \<Rightarrow> join_type \<Rightarrow>
    transform option \<Rightarrow> join_state \<Rightarrow> jsval \<Rightarrow> join_state" where
  "exactLeftStep L lookupMap joinConditions joinType transform st leftRow =
     (let key = createMultiConditionKey L leftRow joinConditions LeftSide;
          matches = (case lookupMap key of None \<Rightarrow> [] | Some rs \<Rightarrow> rs)
      in if length matches > 0 then
           foldl (exactMatchStep joinConditions joinType transform leftRow) st matches
         else if joinType = LeftJoin \<or> joinType = FullJoin then
           st\<lparr> joinedRows := joinedRows st @ [mergeRows leftRow JNull transform] \<rparr>
         else st)"

text \<open>The last loop of both joins: the right rows that no left row matched.\<close>

definition unmatchedRightRows :: "join_type \<Rightarrow> transform option \<Rightarrow> jsval list \<Rightarrow> join_state \<Rightarrow> jsval list" where
  "unmatchedRightRows joinType transform rightDataset st =
     (if joinType = RightJoin \<or> joinType = FullJoin then
        joinedRows st @
          map (\<lambda>rightRow. mergeRows JNull rightRow transform)
            (filter (\<lambda>rightRow. \<not> set_has (matchedRightRows st) rightRow) rightDataset)
      else joinedRows st)"

text \<open>\<open>_performExactJoin(leftDataset, rightDataset, joinConditions, joinType, transform)\<close>.\<close>

definition performExactJoin :: "js_runtime \<Rightarrow> jsval list \<Rightarrow> jsval list \<Rightarrow> join_condition list \<Rightarrow> join_type \<Rightarrow>
    transform option \<Rightarrow> jsval list" where
  "performExactJoin L leftDataset rightDataset joinConditions joinType transform =
     (let lookupMap = buildLookupMap L rightDataset joinConditions;
          st = foldl (exactLeftStep L lookupMap joinConditions joinType transform)
                 \<lparr> joinedRows = [], matchedRightRows = [] \<rparr> leftDataset
      in unmatchedRightRows joinType transform rightDataset st)"

subsection \<open>The fuzzy join\<close>

text \<open>The options the join reads; the remaining ones are only handed to the search
  library. The approximate search itself is the library's: \<open>fuse_search\<close> is a parameter
  that gives, for the options, the right dataset, a key and a pattern, the matches as
  pairs of a right row and a score.\<close>

record fuzzy_options =
  enabled :: bool
  threshold :: rat
  useOrLogic :: bool
  includeScoreInResult :: bool
  sortFuzzyResults :: bool
  maxResultsPerKey :: nat
  isCaseSensitive :: bool
  ignoreLocation :: bool
  minMatchCharLength :: nat
  distance :: nat

type_synonym fuse_search = "fuzzy_options \<Rightarrow> jsval list \<Rightarrow> string \<Rightarrow> string \<Rightarrow> (jsval \<times> rat) list"

record match_info =
  mi_conditions :: "(join_condition \<times> rat) list"
  avgScore :: rat

text \<open>A \<open>Map\<close> keyed by rows, as the list of its entries in insertion order.\<close>

fun rowmap_get :: "(jsval \<times> 'a) list \<Rightarrow> jsval \<Rightarrow> 'a option" where
  "rowmap_get [] k = None"
| "rowmap_get ((k', v) # m) k = (if same_value_zero k' k then Some v else rowmap_get m k)"

fun rowmap_set :: "(jsval \<times> 'a) list \<Rightarrow> jsval \<Rightarrow> 'a \<Rightarrow> (jsval \<times> 'a) list" where
  "rowmap_set [] k v = [(k, v)]"
| "rowmap_set ((k', v') # m) k v =
     (if same_value_zero k' k then (k', v) # m else (k', v') # rowmap_set m k v)"

text \<open>The search patterns of a left row: the conditions whose left value is there.\<close>

definition searchPatterns :: "join_condition list \<Rightarrow> jsval \<Rightarrow> (string \<times> jsval \<times> join_condition) list" where
  "searchPatterns joinConditions leftRow =
     filter (\<lambda>(key, v, condition). v \<noteq> JNull \<and> v \<noteq> JUndefined)
       (map (\<lambda>condition. (rightKey condition, getNestedProperty leftRow (leftKey condition), condition))
          joinConditions)"

text \<open>The matches of each pattern, cut to \<open>maxResultsPerKey\<close>; a pattern without a
  match contributes nothing.\<close>

definition conditionMatches :: "js_runtime \<Rightarrow> fuse_search \<Rightarrow> fuzzy_options \<Rightarrow> jsval list \<Rightarrow>
    (string \<times> jsval \<times> join_condition) list \<Rightarrow> (join_condition \<times> (jsval \<times> rat) list) list" where
  "conditionMatches L search fuzzyOptions rightDataset patterns =
     concat (map (\<lambda>(key, v, condition).
                    let searchValue = (case v of JStr s \<Rightarrow> s | _ \<Rightarrow> js_String L v);
                        matches = search fuzzyOptions rightDataset key searchValue
                    in if length matches > 0
                       then [(condition, take (maxResultsPerKey fuzzyOptions) matches)]
                       else [])
                 patterns)"

text \<open>The two nested loops that fill \<open>allMatchingRows\<close>.\<close>

definition addMatch :: "fuzzy_options \<Rightarrow> join_condition \<Rightarrow> (jsval \<times> match_info) list \<Rightarrow> jsval \<times> rat \<Rightarrow>
    (jsval \<times> match_info) list" where
  "addMatch fuzzyOptions condition allMatchingRows m =
     (let rightRow = fst m; matchScore = snd m
      in if rowmap_get allMatchingRows rightRow = None \<or> useOrLogic fuzzyOptions then
           rowmap_set allMatchingRows rightRow
             \<lparr> mi_conditions = [(condition, matchScore)], avgScore = matchScore \<rparr>
         else
           (case rowmap_get allMatchingRows rightRow of
              None \<Rightarrow> allMatchingRows
            | Some existing \<Rightarrow>
                (let conds = mi_conditions existing @ [(condition, matchScore)]
                 in rowmap_set allMatchingRows rightRow
                      \<lparr> mi_conditions = conds,
                        avgScore = sum_list (map snd conds) / of_nat (length conds) \<rparr>)))"

definition collectMatches :: "fuzzy_options \<Rightarrow> (join_condition \<times> (jsval \<times> rat) list) list \<Rightarrow>
    (jsval \<times> match_info) list" where
  "collectMatches fuzzyOptions cms =
     foldl (\<lambda>allMatchingRows (condition, matches).
              foldl (addMatch fuzzyOptions condition) allMatchingRows matches)
           [] cms"

text \<open>The rows kept with their score, sorted on demand (the sort of the language is
  stable), and those within the threshold.\<close>

definition matchingRows :: "fuzzy_options \<Rightarrow> nat \<Rightarrow> (jsval \<times> match_info) list \<Rightarrow> (jsval \<times> rat) list" where
  "matchingRows fuzzyOptions conditionCount allMatchingRows =
     (let kept = map (\<lambda>(rightRow, matchInfo). (rightRow, avgScore matchInfo))
                   (filter (\<lambda>(rightRow, matchInfo).
                              useOrLogic fuzzyOptions \<or> length (mi_conditions matchInfo) = conditionCount)
                      allMatchingRows)
      in if sortFuzzyResults fuzzyOptions then sort_key snd kept else kept)"

definition acceptedMatches :: "js_runtime \<Rightarrow> fuse_search \<Rightarrow> fuzzy_options \<Rightarrow> jsval list \<Rightarrow>
    join_condition list \<Rightarrow> jsval \<Rightarrow> (jsval \<times> rat) list" where
  "acceptedMatches L search fuzzyOptions rightDataset joinConditions leftRow =
     filter (\<lambda>(rightRow, score). score \<le> threshold fuzzyOptions)
       (matchingRows fuzzyOptions (length joinConditions)
          (collectMatches fuzzyOptions
             (conditionMatches L search fuzzyOptions rightDataset
                (searchPatterns joinConditions leftRow))))"

text \<open>An exception, with its message, and a loop whose body can throw.\<close>

datatype error = Error string

fun fold_err :: "('s \<Rightarrow> 'a \<Rightarrow> error + 's) \<Rightarrow> 's \<Rightarrow> 'a list \<Rightarrow> error + 's" where
  "fold_err f s [] = Inr s"
| "fold_err f s (x # xs) = (case f s x of Inl e \<Rightarrow> Inl e | Inr s' \<Rightarrow> fold_err f s' xs)"

text \<open>\<open>joinedRow._fuzzyScore = score\<close>, in the strict code of a class: an object takes
  the property, and the assignment to a primitive value (which a transform may have
  returned) throws a \<open>TypeError\<close>. An array or a date takes the property as well; the
  arrays and dates of this model have no place for it and are left as they are.\<close>

fun attachScore :: "rat \<Rightarrow> jsval \<Rightarrow> error + jsval" where
  "attachScore score (JObj r fs) = Inr (JObj r (obj_set ''_fuzzyScore'' (JNum score) fs))"
| "attachScore score (JArr r xs) = Inr (JArr r xs)"
| "attachScore score (JDate r t) = Inr (JDate r t)"
| "attachScore score v = Inl (Error ''Cannot create property _fuzzyScore'')"

definition fuzzyJoinedRow :: "fuzzy_options \<Rightarrow> transform option \<Rightarrow> jsval \<Rightarrow> jsval \<times> rat \<Rightarrow>
    error + jsval" where
  "fuzzyJoinedRow fuzzyOptions transform leftRow m =
     (let joinedRow = mergeRows leftRow (fst m) transform
      in if includeScoreInResult fuzzyOptions then attachScore (snd m) joinedRow
         else Inr joinedRow)"

text \<open>The body of the loop over the rows within the threshold.\<close>

definition fuzzyMatchStep :: "fuzzy_options \<Rightarrow> join_type \<Rightarrow> transform option \<Rightarrow> jsval \<Rightarrow>
    join_state \<Rightarrow> jsval \<times> rat \<Rightarrow> error + join_state" where
  "fuzzyMatchStep fuzzyOptions joinType transform leftRow st m =
     (case fuzzyJoinedRow fuzzyOptions transform leftRow m of
        Inl e \<Rightarrow> Inl e
      | Inr joinedRow \<Rightarrow>
          Inr \<lparr> joinedRows = joinedRows st @ [joinedRow],
                matchedRightRows = markMatched joinType (fst m) (matchedRightRows st) \<rparr>)"

definition fuzzyLeftStep :: "js_runtime \<Rightarrow> fuse_search \<Rightarrow> fuzzy_options \<Rightarrow> jsval list \<Rightarrow> join_condition list \<Rightarrow>
    join_type \<Rightarrow> transform option \<Rightarrow> join_state \<Rightarrow> jsval \<Rightarrow> error + join_state" where
  "fuzzyLeftStep L search fuzzyOptions rightDataset joinConditions joinType transform st leftRow =
     (let patterns = searchPatterns joinConditions leftRow
      in if length patterns = 0 then
           (if joinType = LeftJoin \<or> joinType = FullJoin
            then Inr (st\<lparr> joinedRows := joinedRows st @ [mergeRows leftRow JNull transform] \<rparr>)
            else Inr st)
         else if length (conditionMatches L search fuzzyOptions rightDataset patterns) > 0 then
           fold_err (fuzzyMatchStep fuzzyOptions joinType transform leftRow) st
             (acceptedMatches L search fuzzyOptions rightDataset joinConditions leftRow)
         else if joinType = LeftJoin \<or> joinType = FullJoin then
           Inr (st\<lparr> joinedRows := joinedRows st @ [mergeRows leftRow JNull transform] \<rparr>)
         else Inr st)"

text \<open>\<open>_performFuzzyJoin\<close>.\<close>

definition performFuzzyJoin :: "js_runtime \<Rightarrow> fuse_search \<Rightarrow> jsval list \<Rightarrow> jsval list \<Rightarrow> join_condition list \<Rightarrow>
    join_type \<Rightarrow> transform option \<Rightarrow> fuzzy_options \<Rightarrow> error + jsval list" where
  "performFuzzyJoin L search leftDataset rightDataset joinConditions joinType transform fuzzyOptions =
     (case fold_err (fuzzyLeftStep L search fuzzyOptions rightDataset joinConditions joinType transform)
             \<lparr> joinedRows = [], matchedRightRows = [] \<rparr> leftDataset of
        Inl e \<Rightarrow> Inl e
      | Inr st \<Rightarrow> Inr (unmatchedRightRows joinType transform rightDataset st))"

subsection \<open>Running the strategies\<close>

text \<open>\<open>_performJoin\<close>: the datasets are arrays by their type; an empty list of
  conditions is an error.\<close>

definition performJoin :: "js_runtime \<Rightarrow> fuse_search \<Rightarrow> jsval list \<Rightarrow> jsval list \<Rightarrow> join_condition list \<Rightarrow>
    join_type \<Rightarrow> transform option \<Rightarrow> fuzzy_options \<Rightarrow> error + jsval list" where
  "performJoin L search leftDataset rightDataset joinConditions joinType transform fuzzyOptions =
     (if length joinConditions = 0 then Inl (Error ''Invalid or empty join conditions'')
      else if enabled fuzzyOptions then
        performFuzzyJoin L search leftDataset rightDataset joinConditions joinType transform fuzzyOptions
      else Inr (performExactJoin L leftDataset rightDataset joinConditions joinType transform))"

text \<open>A normalised strategy. Its name may be missing; \<open>fuzzyOptions\<close> are its options
  with the defaults of the service and of the call already merged in.\<close>

record join_strategy =
  name :: "string option"
  conditions :: "join_condition list"
  jtype :: "join_type option"
  transform :: "transform option"
  fuzzyOptions :: fuzzy_options

record strategy_result =
  sr_count :: nat
  sr_data :: "jsval list"

record best_join =
  bj_name :: "string option"
  bj_count :: int
  bj_data :: "jsval list"

record join_outcome =
  joinResults :: "(string \<times> strategy_result) list"
  bestJoin :: best_join

record strategies_state =
  ss_joinResults :: "(string \<times> strategy_result) list"
  bestJoinName :: "string option"
  bestJoinCount :: int

text \<open>A property key made of a name: a missing name is the key \<open>undefined\<close>.\<close>

definition property_key :: "string option \<Rightarrow> string" where
  "property_key n = (case n of None \<Rightarrow> ''undefined'' | Some s \<Rightarrow> s)"

fun alist_set :: "string \<Rightarrow> 'a \<Rightarrow> (string \<times> 'a) list \<Rightarrow> (string \<times> 'a) list" where
  "alist_set k v [] = [(k, v)]"
| "alist_set k v ((k', v') # fs) = (if k' = k then (k, v) # fs else (k', v') # alist_set k v fs)"

text \<open>The rows a strategy joins: the call of \<open>_performJoin\<close> in the loop of
  \<open>joinQueries\<close>, with the join type of the strategy, of the call, or inner.\<close>

definition strategyRows :: "js_runtime \<Rightarrow> fuse_search \<Rightarrow> jsval list \<Rightarrow> jsval list \<Rightarrow> join_type option \<Rightarrow>
    join_strategy \<Rightarrow> error + jsval list" where
  "strategyRows L search data1 data2 defaultJoinType strategy =
     performJoin L search data1 data2 (conditions strategy)
       (case jtype strategy of
          Some t \<Rightarrow> t
        | None \<Rightarrow> (case defaultJoinType of Some t \<Rightarrow> t | None \<Rightarrow> Inner))
       (transform strategy) (fuzzyOptions strategy)"

text \<open>The body of the loop over the strategies in \<open>joinQueries\<close>.\<close>

definition strategyStep :: "js_runtime \<Rightarrow> fuse_search \<Rightarrow> jsval list \<Rightarrow> jsval list \<Rightarrow> join_type option \<Rightarrow>
    strategies_state \<Rightarrow> join_strategy \<Rightarrow> error + strategies_state" where
  "strategyStep L search data1 data2 defaultJoinType st strategy =
     (case strategyRows L search data1 data2 defaultJoinType strategy of
        Inl e \<Rightarrow> Inl e
      | Inr rows \<Rightarrow>
          Inr \<lparr> ss_joinResults =
                  alist_set (property_key (name strategy))
                    \<lparr> sr_count = length rows, sr_data = rows \<rparr> (ss_joinResults st),
                bestJoinName =
                  (if int (length rows) > bestJoinCount st then name strategy else bestJoinName st),
                bestJoinCount =
                  (if int (length rows) > bestJoinCount st then int (length rows)
                   else bestJoinCount st) \<rparr>)"

fun strategiesLoop :: "js_runtime \<Rightarrow> fuse_search \<Rightarrow> jsval list \<Rightarrow> jsval list \<Rightarrow> join_type option \<Rightarrow>
    strategies_state \<Rightarrow> join_strategy list \<Rightarrow> error + strategies_state" where
  "strategiesLoop L search data1 data2 d st [] = Inr st"
| "strategiesLoop L search data1 data2 d st (strategy # rest) =
     (case strategyStep L search data1 data2 d st strategy of
        Inl e \<Rightarrow> Inl e
      | Inr st' \<Rightarrow> strategiesLoop L search data1 data2 d st' rest)"

text \<open>\<open>joinQueries\<close> once both queries have returned their rows \<open>data1\<close> and \<open>data2\<close>:
  every strategy is run, and the best one is reported.\<close>

definition joinQueries :: "js_runtime \<Rightarrow> fuse_search \<Rightarrow> jsval list \<Rightarrow> jsval list \<Rightarrow> join_type option \<Rightarrow>
    join_strategy list \<Rightarrow> error + join_outcome" where
  "joinQueries L search data1 data2 defaultJoinType joinStrategies =
     (case strategiesLoop L search data1 data2 defaultJoinType
             \<lparr> ss_joinResults = [], bestJoinName = None, bestJoinCount = - 1 \<rparr> joinStrategies of
        Inl e \<Rightarrow> Inl e
      | Inr st \<Rightarrow>
          Inr \<lparr> joinResults = ss_joinResults st,
                bestJoin =
                  \<lparr> bj_name = bestJoinName st,
                    bj_count = bestJoinCount st,
                    bj_data =
                      (case bestJoinName st of
                         None \<Rightarrow> []
                       | Some n \<Rightarrow>
                           if n \<noteq> [] then
                             (case map_of (ss_joinResults st) n of
                                Some r \<Rightarrow> sr_data r
                              | None \<Rightarrow> [])
                           else []) \<rparr> \<rparr>)"

text \<open>The number of rows a strategy joins (none when its join fails).\<close>

definition strategyCount :: "js_runtime \<Rightarrow> fuse_search \<Rightarrow> jsval list \<Rightarrow> jsval list \<Rightarrow> join_type option \<Rightarrow>
    join_strategy \<Rightarrow> nat" where
  "strategyCount L search data1 data2 d strategy =
     (case strategyRows L search data1 data2 d strategy of Inl e \<Rightarrow> 0 | Inr rows \<Rightarrow> length rows)"

subsection \<open>Example data\<close>

text \<open>A runtime, a search that finds nothing, the default fuzzy options of the service,
  and four one-condition strategies over one left row and seven right rows, which join
  3, 7, 7 and 2 rows.\<close>

definition ex_rt :: js_runtime where
  "ex_rt = \<lparr> number_to_string = (\<lambda>q. []), date_to_string = (\<lambda>t. []), date_to_iso = (\<lambda>t. []) \<rparr>"

definition no_search :: fuse_search where
  "no_search = (\<lambda>opts rows key pattern. [])"

definition defaultFuzzyOptions :: fuzzy_options where
  "defaultFuzzyOptions =
     \<lparr> enabled = False, threshold = 3 / 10, useOrLogic = False, includeScoreInResult = False,
       sortFuzzyResults = True, maxResultsPerKey = 5, isCaseSensitive = False,
       ignoreLocation = True, minMatchCharLength = 2, distance = 100 \<rparr>"

definition ex_strategy :: "string \<Rightarrow> string \<Rightarrow> join_strategy" where
  "ex_strategy n k =
     \<lparr> name = Some n,
       conditions = [\<lparr> leftKey = ''k'', rightKey = k, comparator = None \<rparr>],
       jtype = None, transform = None, fuzzyOptions = defaultFuzzyOptions \<rparr>"

definition ex_right :: "nat \<Rightarrow> string \<Rightarrow> string \<Rightarrow> jsval" where
  "ex_right n a d =
     JObj (Addr n) [(''a'', JStr a), (''b'', JStr ''x''), (''c'', JStr ''x''), (''d'', JStr d)]"

definition ex_left :: "jsval list" where
  "ex_left = [JObj (Addr 0) [(''k'', JStr ''x'')]]"

definition ex_rights :: "jsval list" where
  "ex_rights =
     [ex_right 1 ''x'' ''x'', ex_right 2 ''x'' ''x'', ex_right 3 ''x'' ''y'', ex_right 4 ''y'' ''y'',
      ex_right 5 ''y'' ''y'', ex_right 6 ''y'' ''y'', ex_right 7 ''y'' ''y'']"

definition ex_strategies :: "join_strategy list" where
  "ex_strategies =
     [ex_strategy ''s0'' ''a'', ex_strategy ''s1'' ''b'', ex_strategy ''s2'' ''c'',
      ex_strategy ''s3'' ''d'']"

section \<open>JSON text\<close>

text \<open>\<open>JSON.stringify(value, replacer)\<close> without indentation. The replacer, when
  there is one, is an array of property names: then every object, at every depth, is
  written with exactly the properties the array names, in the order of the array.
  Without it an object is written with its own properties in insertion order.
  \<open>None\<close> is the result \<open>undefined\<close>.\<close>

definition hex_digit :: "nat \<Rightarrow> char" where
  "hex_digit n = ''0123456789abcdef'' ! n"

definition json_escape :: "char \<Rightarrow> string" where
  "json_escape c =
     (if c = CHR 0x22 then [CHR 0x5C, CHR 0x22]
      else if c = CHR 0x5C then [CHR 0x5C, CHR 0x5C]
      else if c = CHR 0x08 then [CHR 0x5C, CHR ''b'']
      else if c = CHR 0x0C then [CHR 0x5C, CHR ''f'']
      else if c = CHR 0x0A then [CHR 0x5C, CHR ''n'']
      else if c = CHR 0x0D then [CHR 0x5C, CHR ''r'']
      else if c = CHR 0x09 then [CHR 0x5C, CHR ''t'']
      else if (of_char c :: nat) < 32 then
        [CHR 0x5C, CHR ''u'', CHR ''0'', CHR ''0'',
         hex_digit ((of_char c :: nat) div 16), hex_digit ((of_char c :: nat) mod 16)]
      else [c])"

definition json_quote :: "string \<Rightarrow> string" where
  "json_quote s = CHR 0x22 # concat (map json_escape s) @ [CHR 0x22]"

text \<open>The property list of a replacer array: its names, each once, first come first.\<close>

definition property_list :: "string list \<Rightarrow> string list" where
  "property_list ks = rev (remdups (rev ks))"

function json_stringify :: "js_runtime \<Rightarrow> string list option \<Rightarrow> jsval \<Rightarrow> string option" where
  "json_stringify L K JUndefined = None"
| "json_stringify L K JNull = Some ''null''"
| "json_stringify L K (JBool b) = Some (if b then ''true'' else ''false'')"
| "json_stringify L K (JNum q) = Some (js_number_to_string L q)"
| "json_stringify L K JNaN = Some ''null''"
| "json_stringify L K (JStr s) = Some (json_quote s)"
| "json_stringify L K (JDate r t) = Some (json_quote (date_to_iso L t))"
| "json_stringify L K (JArr r xs) =
     Some (''['' @
           join_with '',''
             (map (\<lambda>x. case json_stringify L K x of None \<Rightarrow> ''null'' | Some s \<Rightarrow> s) xs) @
           '']'')"
| "json_stringify L K (JObj r fs) =
     Some (''{'' @
           join_with '',''
             (concat
                (map (\<lambda>k. case map_of fs k of
                             None \<Rightarrow> []
                           | Some v \<Rightarrow>
                               (case json_stringify L K v of
                                  None \<Rightarrow> []
                                | Some s \<Rightarrow> [json_quote k @ '':'' @ s]))
                   (case K of None \<Rightarrow> map fst fs | Some ks \<Rightarrow> property_list ks))) @
           ''}'')"
  by pat_completeness auto
termination
proof (relation "measure (\<lambda>(L, K, v). size v)")
  show "wf (measure (\<lambda>(L, K, v). size v))" by simp
next
  fix L :: js_runtime and K :: "string list option" and r and xs :: "jsval list" and x
  assume "x \<in> set xs"
  then have "size x < Suc (size_list size xs)"
    by (induction xs) auto
  then show "((L, K, x), (L, K, JArr r xs)) \<in> measure (\<lambda>(L, K, v). size v)" by simp
next
  fix L :: js_runtime and K :: "string list option" and r and fs :: "(string \<times> jsval) list"
    and k v
  assume "map_of fs k = Some v"
  then have "(k, v) \<in> set fs" by (rule map_of_SomeD)
  then have "size v < Suc (size_list (size_prod (\<lambda>x. 0) size) fs)"
    by (induction fs) auto
  then show "((L, K, v), (L, K, JObj r fs)) \<in> measure (\<lambda>(L, K, v). size v)" by simp
qed

section \<open>Signatures\<close>

subsection \<open>The signature of a query\<close>

text \<open>\<open>sql.replace(/\s+/g, ' ')\<close>: every maximal run of white space becomes one blank.
  Strings are ASCII text here: the white space is the blank and the five control
  characters of \<open>is_space\<close>, and the letters with a case are A to Z.\<close>

function collapse_ws :: "string \<Rightarrow> string" where
  "collapse_ws [] = []"
| "collapse_ws (c # cs) =
     (if is_space c then CHR '' '' # collapse_ws (dropWhile is_space cs)
      else c # collapse_ws cs)"
  by pat_completeness auto
termination
  by (relation "measure length") (auto simp: length_dropWhile_le less_Suc_eq_le)

text \<open>\<open>s.trim()\<close> and \<open>s.toLowerCase()\<close>.\<close>

definition js_trim :: "string \<Rightarrow> string" where
  "js_trim s = rev (dropWhile is_space (rev (dropWhile is_space s)))"

definition to_lower :: "char \<Rightarrow> char" where
  "to_lower c =
     (case map_of (zip ''ABCDEFGHIJKLMNOPQRSTUVWXYZ'' ''abcdefghijklmnopqrstuvwxyz'') c of
        Some l \<Rightarrow> l
      | None \<Rightarrow> c)"

definition toLowerCase :: "string \<Rightarrow> string" where
  "toLowerCase s = map to_lower s"

definition normalizeSql :: "string \<Rightarrow> string" where
  "normalizeSql sql = toLowerCase (js_trim (collapse_ws sql))"

text \<open>\<open>Object.keys(bindParams || {}).sort()\<close>: the default sort compares strings by
  their code units.\<close>

definition paramKeys :: "jsval \<Rightarrow> string list" where
  "paramKeys bindParams = sort (if truthy bindParams then own_keys bindParams else [])"

text \<open>What \<open>generateQuerySignature\<close> hashes, and the signature. The hash is the
  platform's SHA-256 in hexadecimal, a parameter \<open>sha256\<close> of the model.\<close>

definition querySignatureData :: "js_runtime \<Rightarrow> string \<Rightarrow> jsval \<Rightarrow> string option" where
  "querySignatureData L sql bindParams =
     json_stringify L None
       (JObj (New ''signatureData'' [])
          [(''sql'', JStr (normalizeSql sql)),
           (''paramKeys'', JArr (New ''paramKeys'' []) (map JStr (paramKeys bindParams)))])"

definition generateQuerySignature :: "js_runtime \<Rightarrow> (string \<Rightarrow> string) \<Rightarrow> string \<Rightarrow> jsval \<Rightarrow> error + string" where
  "generateQuerySignature L sha256 sql bindParams =
     (case querySignatureData L sql bindParams of
        None \<Rightarrow> Inl (Error ''TypeError'')
      | Some s \<Rightarrow> Inr (sha256 s))"



subsection \<open>The signature of a row\<close>

text \<open>The tracking options. \<open>hashFields\<close> and \<open>compositeFields\<close> are arrays of names
  when they are given; \<open>customComparator\<close> is a caller's function of the row, whose
  result \<open>None\<close> is an exception.\<close>

record tracking_options =
  markingStrategy :: string
  hashFields :: "string list option"
  compositeFields :: "string list option"
  customComparator :: "(jsval \<Rightarrow> jsval option) option"

text \<open>The loops that copy the named fields the row has, and all its fields but the
  internal ones, into the fresh object \<open>dataToHash\<close>. Reading a property of a row that
  is null or undefined is a TypeError.\<close>

definition pickFields :: "string list \<Rightarrow> jsval \<Rightarrow> error + jsval" where
  "pickFields fieldNames row =
     (if fieldNames \<noteq> [] \<and> is_nullish row then Inl (Error ''TypeError'')
      else Inr (JObj (New ''dataToHash'' [ref_of row])
                  (foldl (\<lambda>acc field.
                            if has_own row field
                            then obj_set field (case js_get row field of None \<Rightarrow> JUndefined | Some v \<Rightarrow> v) acc
                            else acc)
                         [] fieldNames)))"

definition publicFields :: "jsval \<Rightarrow> error + jsval" where
  "publicFields row =
     (if is_nullish row then Inl (Error ''TypeError'')
      else Inr (JObj (New ''dataToHash'' [ref_of row])
                  (foldl (\<lambda>acc (key, v). if \<not> starts_with_underscore key then obj_set key v acc else acc)
                         [] (own_entries row))))"

text \<open>The \<open>switch\<close> of \<open>generateRowSignature\<close>.\<close>

definition dataToHash :: "tracking_options \<Rightarrow> jsval \<Rightarrow> error + jsval" where
  "dataToHash trackingOptions row =
     (if markingStrategy trackingOptions = ''hash'' then
        (case hashFields trackingOptions of
           Some fieldNames \<Rightarrow> pickFields fieldNames row
         | None \<Rightarrow> publicFields row)
      else if markingStrategy trackingOptions = ''composite'' then
        pickFields
          (case compositeFields trackingOptions of
             Some fieldNames \<Rightarrow> fieldNames
           | None \<Rightarrow> [''id'', ''name'', ''email''])
          row
      else if markingStrategy trackingOptions = ''custom'' then
        (case customComparator trackingOptions of
           Some f \<Rightarrow> (case f row of None \<Rightarrow> Inr row | Some v \<Rightarrow> Inr v)
         | None \<Rightarrow> Inr row)
      else Inr row)"

text \<open>What is hashed: \<open>JSON.stringify(dataToHash, Object.keys(dataToHash).sort())\<close>.
  \<open>Object.keys\<close> of null or undefined is a TypeError.\<close>

definition rowSignatureData :: "js_runtime \<Rightarrow> tracking_options \<Rightarrow> jsval \<Rightarrow> error + string" where
  "rowSignatureData L trackingOptions row =
     (case dataToHash trackingOptions row of
        Inl e \<Rightarrow> Inl e
      | Inr d \<Rightarrow>
          if is_nullish d then Inl (Error ''TypeError'')
          else (case json_stringify L (Some (sort (own_keys d))) d of
                  None \<Rightarrow> Inl (Error ''TypeError'')
                | Some s \<Rightarrow> Inr s))"

text \<open>\<open>generateRowSignature(row, trackingOptions)\<close>.\<close>

definition generateRowSignature :: "js_runtime \<Rightarrow> (string \<Rightarrow> string) \<Rightarrow> tracking_options \<Rightarrow> jsval \<Rightarrow> error + string" where
  "generateRowSignature L sha256 trackingOptions row =
     (case rowSignatureData L trackingOptions row of
        Inl e \<Rightarrow> Inl e
      | Inr s \<Rightarrow> Inr (sha256 s))"

text \<open>Two rows hold the same key/value pairs, in whatever insertion order.\<close>

definition same_fields :: "jsval \<Rightarrow> jsval \<Rightarrow> bool" where
  "same_fields row1 row2 =
     (case (row1, row2) of
        (JObj r fs, JObj r' gs) \<Rightarrow>
          distinct (map fst fs) \<and> distinct (map fst gs) \<and> set fs = set gs
      | _ \<Rightarrow> False)"

text \<open>The options of the service, and a custom extraction that reads the name of the
  first field of the row.\<close>

definition defaultTrackingOptions :: tracking_options where
  "defaultTrackingOptions =
     \<lparr> markingStrategy = ''hash'', hashFields = None, compositeFields = None,
       customComparator = None \<rparr>"

definition firstFieldName :: "jsval \<Rightarrow> jsval option" where
  "firstFieldName row = (case own_keys row of [] \<Rightarrow> Some (JStr []) | k # ks \<Rightarrow> Some (JStr k))"

definition ex_row_ab :: jsval where
  "ex_row_ab = JObj (Addr 1) [(''a'', JNum 1), (''b'', JNum 2)]"

definition ex_row_ba :: jsval where
  "ex_row_ba = JObj (Addr 2) [(''b'', JNum 2), (''a'', JNum 1)]"

definition firstFieldOptions :: tracking_options where
  "firstFieldOptions = \<lparr> markingStrategy = ''custom'', hashFields = None, compositeFields = None,
       customComparator = Some firstFieldName \<rparr>"

section \<open>Result tracking\<close>

text \<open>An execution record as the query store returns it, and an entry of the index of
  the rows seen before.\<close>

record execution =
  ex_id :: string
  ex_status :: string
  started_at :: jsval
  completed_at :: jsval
  results :: jsval

record index_entry =
  ie_signature :: string
  ie_count :: nat
  firstSeen :: jsval
  lastSeen :: jsval
  executionIds :: "string list"
  sampleData :: jsval

text \<open>\<open>a || b\<close>.\<close>

definition js_or :: "jsval \<Rightarrow> jsval \<Rightarrow> jsval" where
  "js_or a b = (if truthy a then a else b)"

text \<open>The body of the inner loop of \<open>buildPreviousResultsIndex\<close>: one row of one
  execution.\<close>

definition indexRow :: "js_runtime \<Rightarrow> (string \<Rightarrow> string) \<Rightarrow> tracking_options \<Rightarrow> execution \<Rightarrow>
    (string \<rightharpoonup> index_entry) \<Rightarrow> jsval \<Rightarrow> error + (string \<rightharpoonup> index_entry)" where
  "indexRow L sha256 trackingOptions execution index row =
     (case generateRowSignature L sha256 trackingOptions row of
        Inl e \<Rightarrow> Inl e
      | Inr signature \<Rightarrow>
          (case index signature of
             Some existing \<Rightarrow>
               Inr (index(signature \<mapsto>
                      existing\<lparr> ie_count := ie_count existing + 1,
                                lastSeen := js_or (completed_at execution) (started_at execution),
                                executionIds := executionIds existing @ [ex_id execution] \<rparr>))
           | None \<Rightarrow>
               Inr (index(signature \<mapsto>
                      \<lparr> ie_signature = signature,
                        ie_count = 1,
                        firstSeen = js_or (completed_at execution) (started_at execution),
                        lastSeen = js_or (completed_at execution) (started_at execution),
                        executionIds = [ex_id execution],
                        sampleData = row \<rparr>))))"

definition indexExecution :: "js_runtime \<Rightarrow> (string \<Rightarrow> string) \<Rightarrow> tracking_options \<Rightarrow>
    (string \<rightharpoonup> index_entry) \<Rightarrow> execution \<Rightarrow> error + (string \<rightharpoonup> index_entry)" where
  "indexExecution L sha256 trackingOptions index execution =
     (case results execution of
        JArr r rows \<Rightarrow> fold_err (indexRow L sha256 trackingOptions execution) index rows
      | _ \<Rightarrow> Inr index)"

text \<open>\<open>buildPreviousResultsIndex(previousExecutions, trackingOptions)\<close>.\<close>

definition buildPreviousResultsIndex :: "js_runtime \<Rightarrow> (string \<Rightarrow> string) \<Rightarrow> execution list \<Rightarrow>
    tracking_options \<Rightarrow> error + (string \<rightharpoonup> index_entry)" where
  "buildPreviousResultsIndex L sha256 previousExecutions trackingOptions =
     fold_err (indexExecution L sha256 trackingOptions) Map.empty previousExecutions"

text \<open>The \<open>_tracking\<close> object of a marked row, and the marked row
  \<open>{...currentRow, _tracking: ...}\<close>. \<open>now\<close> is the time at which the row is marked.\<close>

definition trackingObject :: "string \<Rightarrow> string \<Rightarrow> index_entry option \<Rightarrow> jsval" where
  "trackingObject now rowSignature previousOccurrence =
     JObj (New ''_tracking'' [])
       [(''isNew'', JBool (previousOccurrence = None)),
        (''signature'', JStr rowSignature),
        (''firstSeen'', (case previousOccurrence of Some p \<Rightarrow> firstSeen p | None \<Rightarrow> JStr now)),
        (''occurrenceCount'',
           JNum (case previousOccurrence of Some p \<Rightarrow> of_nat (ie_count p) + 1 | None \<Rightarrow> 1)),
        (''lastSeenBefore'', (case previousOccurrence of Some p \<Rightarrow> lastSeen p | None \<Rightarrow> JNull)),
        (''executionIds'',
           JArr (New ''executionIds'' [])
             (case previousOccurrence of Some p \<Rightarrow> map JStr (executionIds p) | None \<Rightarrow> []))]"

definition markRow :: "string \<Rightarrow> string \<Rightarrow> index_entry option \<Rightarrow> jsval \<Rightarrow> jsval" where
  "markRow now rowSignature previousOccurrence currentRow =
     JObj (New ''markedRow'' [ref_of currentRow])
       (obj_set ''_tracking'' (trackingObject now rowSignature previousOccurrence)
          (own_entries currentRow))"

record marking_state =
  markedResults :: "jsval list"
  newCount :: nat
  previouslySeenCount :: nat

text \<open>The body of the loop over the current rows. The clock gives the time at which
  the row at each position is marked.\<close>

definition markStep :: "js_runtime \<Rightarrow> (string \<Rightarrow> string) \<Rightarrow> (nat \<Rightarrow> string) \<Rightarrow> tracking_options \<Rightarrow>
    (string \<rightharpoonup> index_entry) \<Rightarrow> marking_state \<Rightarrow> jsval \<Rightarrow> error + marking_state" where
  "markStep L sha256 clock trackingOptions previousResultsIndex st currentRow =
     (case generateRowSignature L sha256 trackingOptions currentRow of
        Inl e \<Rightarrow> Inl e
      | Inr rowSignature \<Rightarrow>
          (let previousOccurrence = previousResultsIndex rowSignature
           in Inr \<lparr> markedResults =
                      markedResults st @
                        [markRow (clock (length (markedResults st))) rowSignature previousOccurrence
                           currentRow],
                    newCount = (if previousOccurrence = None then newCount st + 1 else newCount st),
                    previouslySeenCount =
                      (if previousOccurrence = None then previouslySeenCount st
                       else previouslySeenCount st + 1) \<rparr>))"

record tracking_stats =
  totalRows :: nat
  newRows :: nat
  previouslySeenRows :: nat
  executionsSearched :: nat
  ts_querySignature :: string
  newRowPercentage :: "int option"
  trackingStrategy :: string

record tracking_result =
  markedData :: "jsval list"
  stats :: tracking_stats

text \<open>\<open>Math.round((newCount / total) * 100)\<close>, in exact arithmetic: the quotient of
  zero by zero is NaN, which is \<open>None\<close>, and \<open>Math.round\<close> rounds a half upwards.\<close>

definition roundedPercentage :: "nat \<Rightarrow> nat \<Rightarrow> int option" where
  "roundedPercentage n len =
     (if len = 0 then None
      else Some \<lfloor>(of_nat n / of_nat len) * 100 + (1 / 2 :: rat)\<rfloor>)"

text \<open>\<open>processResultTracking(currentResults, sql, bindParams, trackingOptions)\<close>. The
  query store is the parameter \<open>getPreviousExecutionsWithResults\<close>: the completed
  executions with results that have the signature of the query.\<close>

definition processResultTracking :: "js_runtime \<Rightarrow> (string \<Rightarrow> string) \<Rightarrow> (nat \<Rightarrow> string) \<Rightarrow>
    (string \<Rightarrow> execution list) \<Rightarrow> jsval list \<Rightarrow> string \<Rightarrow> jsval \<Rightarrow> tracking_options \<Rightarrow>
    error + tracking_result" where
  "processResultTracking L sha256 clock getPreviousExecutionsWithResults currentResults sql
      bindParams trackingOptions =
     (case generateQuerySignature L sha256 sql bindParams of
        Inl e \<Rightarrow> Inl e
      | Inr querySignature \<Rightarrow>
          (let previousExecutions = getPreviousExecutionsWithResults querySignature
           in case buildPreviousResultsIndex L sha256 previousExecutions trackingOptions of
                Inl e \<Rightarrow> Inl e
              | Inr previousResultsIndex \<Rightarrow>
                  (case fold_err (markStep L sha256 clock trackingOptions previousResultsIndex)
                          \<lparr> markedResults = [], newCount = 0, previouslySeenCount = 0 \<rparr>
                          currentResults of
                     Inl e \<Rightarrow> Inl e
                   | Inr st \<Rightarrow>
                       Inr \<lparr> markedData = markedResults st,
                             stats =
                               \<lparr> totalRows = length currentResults,
                                 newRows = newCount st,
                                 previouslySeenRows = previouslySeenCount st,
                                 executionsSearched = length previousExecutions,
                                 ts_querySignature = querySignature,
                                 newRowPercentage =
                                   roundedPercentage (newCount st) (length currentResults),
                                 trackingStrategy = markingStrategy trackingOptions \<rparr> \<rparr>)))"

text \<open>The fields of the \<open>_tracking\<close> object of a marked row; what the fields are to
  be for a row with the given signature and entry of the index; and whether a row is
  new with respect to an index.\<close>

definition tracking_of :: "jsval \<Rightarrow> (string \<times> jsval) list" where
  "tracking_of marked = (case js_get marked ''_tracking'' of Some (JObj r fs) \<Rightarrow> fs | _ \<Rightarrow> [])"

definition isNewRow :: "js_runtime \<Rightarrow> (string \<Rightarrow> string) \<Rightarrow> tracking_options \<Rightarrow>
    (string \<rightharpoonup> index_entry) \<Rightarrow> jsval \<Rightarrow> bool" where
  "isNewRow L sha256 trackingOptions index row =
     (case generateRowSignature L sha256 trackingOptions row of
        Inl e \<Rightarrow> False
      | Inr signature \<Rightarrow> index signature = None)"

definition expectedTracking :: "string \<Rightarrow> string \<Rightarrow> index_entry option \<Rightarrow> (string \<times> jsval) list" where
  "expectedTracking now signature previousOccurrence =
     (case previousOccurrence of
        Some p \<Rightarrow>
          [(''isNew'', JBool False),
           (''signature'', JStr signature),
           (''firstSeen'', firstSeen p),
           (''occurrenceCount'', JNum (of_nat (ie_count p) + 1)),
           (''lastSeenBefore'', lastSeen p),
           (''executionIds'', JArr (New ''executionIds'' []) (map JStr (executionIds p)))]
      | None \<Rightarrow>
          [(''isNew'', JBool True),
           (''signature'', JStr signature),
           (''firstSeen'', JStr now),
           (''occurrenceCount'', JNum 1),
           (''lastSeenBefore'', JNull),
           (''executionIds'', JArr (New ''executionIds'' []) [])])"

text \<open>One earlier execution with the row \<open>{a: 1}\<close>, and two current rows.\<close>

definition ex_previous :: "string \<Rightarrow> execution list" where
  "ex_previous querySignature =
     [\<lparr> ex_id = ''e1'', ex_status = ''completed'', started_at = JStr ''t0'', completed_at = JStr ''t1'',
        results = JArr (Addr 10) [JObj (Addr 11) [(''a'', JNum 1)]] \<rparr>]"

definition ex_current :: "jsval list" where
  "ex_current = [JObj (Addr 1) [(''a'', JNum 1)], JObj (Addr 2) [(''a'', JNum 2)]]"

section \<open>The result store\<close>

text \<open>The store keeps its rows in a table of the database, keyed by the id, and the
  results it has served in a memory cache. What the platform and its libraries do is a
  parameter: parsing JSON text (by \<open>JSON.parse\<close>, and by the database driver for a JSON
  column), the UTF-8 coding of \<open>Buffer.from\<close> and \<open>toString\<close>, and the compression of
  \<open>gzipSync\<close> and \<open>gunzipSync\<close>. \<open>None\<close> is an exception.\<close>

type_synonym bytes = "nat list"

record codecs =
  json_parse :: "string \<Rightarrow> jsval option"
  utf8_encode :: "string \<Rightarrow> bytes"
  utf8_decode :: "bytes \<Rightarrow> string"
  gzip :: "bytes \<Rightarrow> bytes"
  gunzip :: "bytes \<Rightarrow> bytes option"

text \<open>The clock and the id generator of one call of \<open>storeResult\<close>.\<close>

record store_env =
  env_now :: string
  env_uuid :: string
  env_expiry :: "rat \<Rightarrow> string"

record store_config =
  compressionThreshold :: nat
  resultsCacheSize :: nat

text \<open>The argument of \<open>storeResult\<close>; a missing field is \<open>None\<close> or undefined.\<close>

record result_data =
  rd_id :: "string option"
  rd_queryId :: jsval
  rd_executionId :: jsval
  rd_resultType :: "string option"
  rd_data :: jsval
  rd_metadata :: jsval
  rd_tags :: "string list option"
  rd_ttlSeconds :: "rat option"

text \<open>A row of the table \<open>query_results\<close>.\<close>

record db_row =
  col_id :: string
  col_query_id :: jsval
  col_execution_id :: jsval
  col_result_type :: string
  col_row_count :: jsval
  col_storage_type :: string
  col_data :: "string option"
  col_data_large :: "bytes option"
  col_is_compressed :: bool
  col_metadata :: "string option"
  col_tags :: "string list"
  col_ttl :: "string option"
  col_created_at :: string
  col_updated_at :: string

text \<open>A result as the store returns and caches it.\<close>

record result =
  res_id :: string
  res_queryId :: jsval
  res_executionId :: jsval
  res_resultType :: string
  res_rowCount :: jsval
  res_data :: jsval
  res_metadata :: jsval
  res_tags :: "string list option"
  res_ttl :: "string option"
  res_createdAt :: string
  res_updatedAt :: "string option"
  fromCache :: bool

record store_state =
  table :: "string \<rightharpoonup> db_row"
  resultsCache :: "(string \<times> result) list"
  compressionEnabled :: bool

text \<open>The memory cache keeps the most recently used entries, the most recent first,
  up to its size. (Its own expiry of entries by age is not modelled.)\<close>

definition cache_set :: "nat \<Rightarrow> string \<Rightarrow> result \<Rightarrow> (string \<times> result) list \<Rightarrow> (string \<times> result) list" where
  "cache_set size_max k v c = take size_max ((k, v) # filter (\<lambda>(k', v'). k' \<noteq> k) c)"

definition cache_get :: "string \<Rightarrow> (string \<times> result) list \<Rightarrow> result option \<times> (string \<times> result) list" where
  "cache_get k c =
     (case map_of c k of
        None \<Rightarrow> (None, c)
      | Some v \<Rightarrow> (Some v, (k, v) # filter (\<lambda>(k', v'). k' \<noteq> k) c))"

text \<open>\<open>resultData.data || []\<close> and \<open>resultData.data ? resultData.data.length : 0\<close>.\<close>

definition dataOrEmpty :: "jsval \<Rightarrow> jsval" where
  "dataOrEmpty v = (if truthy v then v else JArr (New ''[]'' []) [])"

definition rowCountOf :: "jsval \<Rightarrow> jsval" where
  "rowCountOf v =
     (if truthy v then (case js_get v ''length'' of None \<Rightarrow> JUndefined | Some n \<Rightarrow> n) else JNum 0)"

text \<open>The first lines of \<open>storeResult\<close>: the id, the result type and the expiry.\<close>

definition resultId :: "store_env \<Rightarrow> result_data \<Rightarrow> string" where
  "resultId env resultData =
     (case rd_id resultData of
        Some i \<Rightarrow> if i \<noteq> [] then i else env_uuid env
      | None \<Rightarrow> env_uuid env)"

definition resultTypeOf :: "result_data \<Rightarrow> string" where
  "resultTypeOf resultData =
     (case rd_resultType resultData of
        Some t \<Rightarrow> if t \<noteq> [] then t else ''single''
      | None \<Rightarrow> ''single'')"

definition resultTtl :: "store_env \<Rightarrow> result_data \<Rightarrow> string option" where
  "resultTtl env resultData =
     (case rd_ttlSeconds resultData of
        Some t \<Rightarrow> if t \<noteq> 0 then Some (env_expiry env t) else None
      | None \<Rightarrow> None)"

text \<open>The storage format and the values of the insert, for the serialised data
  \<open>dataString\<close>.\<close>

definition storageRow :: "js_runtime \<Rightarrow> codecs \<Rightarrow> store_env \<Rightarrow> store_config \<Rightarrow> store_state \<Rightarrow>
    result_data \<Rightarrow> string \<Rightarrow> db_row" where
  "storageRow L C env cfg st resultData dataString =
     (let isLarge = (length dataString > compressionThreshold cfg);
          shouldCompress = (isLarge \<and> compressionEnabled st);
          storageType = (if isLarge then ''large'' else ''json'');
          dataLarge = (if isLarge then
                         (if shouldCompress
                          then Some (gzip C (utf8_encode C dataString))
                          else Some (utf8_encode C dataString))
                       else None);
          isCompressed = (isLarge \<and> shouldCompress)
      in \<lparr> col_id = resultId env resultData,
           col_query_id = rd_queryId resultData,
           col_execution_id = rd_executionId resultData,
           col_result_type = resultTypeOf resultData,
           col_row_count = rowCountOf (rd_data resultData),
           col_storage_type = storageType,
           col_data = (if storageType = ''json''
                       then json_stringify L None (dataOrEmpty (rd_data resultData))
                       else None),
           col_data_large = (if storageType = ''large'' then dataLarge else None),
           col_is_compressed = isCompressed,
           col_metadata =
             json_stringify L None
               (if truthy (rd_metadata resultData) then rd_metadata resultData
                else JObj (New ''{}'' []) []),
           col_tags = (case rd_tags resultData of Some ts \<Rightarrow> ts | None \<Rightarrow> []),
           col_ttl = resultTtl env resultData,
           col_created_at = env_now env,
           col_updated_at = env_now env \<rparr>)"

text \<open>The entry put into the cache, with the original data, and the value returned,
  without the data.\<close>

definition cachedEntry :: "store_env \<Rightarrow> result_data \<Rightarrow> result" where
  "cachedEntry env resultData =
     \<lparr> res_id = resultId env resultData,
       res_queryId = rd_queryId resultData,
       res_executionId = rd_executionId resultData,
       res_resultType = resultTypeOf resultData,
       res_rowCount = rowCountOf (rd_data resultData),
       res_data = rd_data resultData,
       res_metadata = rd_metadata resultData,
       res_tags = None,
       res_ttl = None,
       res_createdAt = env_now env,
       res_updatedAt = None,
       fromCache = False \<rparr>"

definition storedInfo :: "store_env \<Rightarrow> result_data \<Rightarrow> result" where
  "storedInfo env resultData =
     (cachedEntry env resultData)
       \<lparr> res_data := JUndefined, res_tags := rd_tags resultData,
         res_ttl := resultTtl env resultData \<rparr>"

text \<open>\<open>storeResult(resultData)\<close> on an initialised store. The insert fails when the
  table has a row with the id already (the id is the primary key).\<close>

definition storeResult :: "js_runtime \<Rightarrow> codecs \<Rightarrow> store_env \<Rightarrow> store_config \<Rightarrow> store_state \<Rightarrow>
    result_data \<Rightarrow> error + (result \<times> store_state)" where
  "storeResult L C env cfg st resultData =
     (case json_stringify L None (dataOrEmpty (rd_data resultData)) of
        None \<Rightarrow> Inl (Error ''Failed to store query result'')
      | Some dataString \<Rightarrow>
          if table st (resultId env resultData) \<noteq> None
          then Inl (Error ''Failed to store query result'')
          else Inr (storedInfo env resultData,
                    st\<lparr> table :=
                          (table st)(resultId env resultData \<mapsto>
                             storageRow L C env cfg st resultData dataString),
                        resultsCache :=
                          cache_set (resultsCacheSize cfg) (resultId env resultData)
                            (cachedEntry env resultData) (resultsCache st) \<rparr>))"

text \<open>The data of a row of the table as \<open>getResultById\<close> decodes it; \<open>None\<close> is an
  exception. The driver hands over a JSON column parsed.\<close>

definition decodeData :: "codecs \<Rightarrow> db_row \<Rightarrow> jsval option" where
  "decodeData C row =
     (if col_storage_type row = ''json'' then
        (case col_data row of None \<Rightarrow> Some JNull | Some text \<Rightarrow> json_parse C text)
      else if col_storage_type row = ''large'' then
        (case col_data_large row of
           None \<Rightarrow> None
         | Some b \<Rightarrow>
             if col_is_compressed row then
               (case gunzip C b of None \<Rightarrow> None | Some d \<Rightarrow> json_parse C (utf8_decode C d))
             else json_parse C (utf8_decode C b))
      else Some JUndefined)"

text \<open>\<open>getResultById(id)\<close>.\<close>

definition getResultById :: "codecs \<Rightarrow> store_config \<Rightarrow> store_state \<Rightarrow> string \<Rightarrow>
    error + (result \<times> store_state)" where
  "getResultById C cfg st rid =
     (case cache_get rid (resultsCache st) of
        (Some cachedResult, cache') \<Rightarrow>
          Inr (cachedResult\<lparr> fromCache := True \<rparr>, st\<lparr> resultsCache := cache' \<rparr>)
      | (None, cache') \<Rightarrow>
          (case table st rid of
             None \<Rightarrow> Inl (Error ''Result not found'')
           | Some row \<Rightarrow>
               (case decodeData C row of
                  None \<Rightarrow> Inl (Error ''Error getting result by ID'')
                | Some parsedData \<Rightarrow>
                    (let formattedResult =
                           \<lparr> res_id = col_id row,
                             res_queryId = col_query_id row,
                             res_executionId = col_execution_id row,
                             res_resultType = col_result_type row,
                             res_rowCount = col_row_count row,
                             res_data = parsedData,
                             res_metadata =
                               (case col_metadata row of
                                  None \<Rightarrow> JNull
                                | Some text \<Rightarrow>
                                    (case json_parse C text of None \<Rightarrow> JNull | Some m \<Rightarrow> m)),
                             res_tags = Some (col_tags row),
                             res_ttl = col_ttl row,
                             res_createdAt = col_created_at row,
                             res_updatedAt = Some (col_updated_at row),
                             fromCache = False \<rparr>
                     in Inr (formattedResult,
                             st\<lparr> resultsCache :=
                                   cache_set (resultsCacheSize cfg) rid formattedResult cache' \<rparr>)))))"

text \<open>Deep equality: equality up to the identity of the objects.\<close>

fun erase_refs :: "jsval \<Rightarrow> jsval" where
  "erase_refs (JDate r t) = JDate (Addr 0) t"
| "erase_refs (JArr r xs) = JArr (Addr 0) (map erase_refs xs)"
| "erase_refs (JObj r fs) = JObj (Addr 0) (map (\<lambda>kv. (fst kv, erase_refs (snd kv))) fs)"
| "erase_refs v = v"

definition deep_equal :: "jsval \<Rightarrow> jsval \<Rightarrow> bool" where
  "deep_equal a b = (erase_refs a = erase_refs b)"

text \<open>A value is JSON-representable when writing it as JSON text and parsing the text
  gives a value deep-equal to it. The coding and the compression are lossless on a
  text when decoding gives the text back.\<close>

definition json_representable :: "js_runtime \<Rightarrow> codecs \<Rightarrow> jsval \<Rightarrow> bool" where
  "json_representable L C v =
     (case json_stringify L None v of
        None \<Rightarrow> False
      | Some s \<Rightarrow> (case json_parse C s of None \<Rightarrow> False | Some v' \<Rightarrow> deep_equal v' v))"

definition lossless_on :: "codecs \<Rightarrow> string \<Rightarrow> bool" where
  "lossless_on C s =
     (utf8_decode C (utf8_encode C s) = s \<and>
      gunzip C (gzip C (utf8_encode C s)) = Some (utf8_encode C s))"

text \<open>A store call for the rows \<open>[{a: 1}]\<close>, whose JSON text has nine characters, with
  a threshold of five; a parser that knows this one text; and codecs that stand for the
  platform's: the characters as bytes, and a reversal for the compression.\<close>

definition ex_rows :: jsval where
  "ex_rows = JArr (Addr 1) [JObj (Addr 2) [(''a'', JNum 1)]]"

definition ex_parse :: "string \<Rightarrow> jsval option" where
  "ex_parse s = (if Some s = json_stringify ex_rt None ex_rows then Some ex_rows else None)"

definition ex_codecs :: codecs where
  "ex_codecs =
     \<lparr> json_parse = ex_parse, utf8_encode = map of_char, utf8_decode = map char_of,
       gzip = rev, gunzip = (\<lambda>b. Some (rev b)) \<rparr>"

definition ex_env :: store_env where
  "ex_env = \<lparr> env_now = ''t'', env_uuid = ''u1'', env_expiry = (\<lambda>t. ''later'') \<rparr>"

definition ex_cfg :: store_config where
  "ex_cfg = \<lparr> compressionThreshold = 5, resultsCacheSize = 100 \<rparr>"

definition ex_state :: store_state where
  "ex_state = \<lparr> table = Map.empty, resultsCache = [], compressionEnabled = True \<rparr>"

definition ex_request :: result_data where
  "ex_request =
     \<lparr> rd_id = None, rd_queryId = JStr ''q1'', rd_executionId = JUndefined, rd_resultType = None,
       rd_data = ex_rows, rd_metadata = JUndefined, rd_tags = None, rd_ttlSeconds = None \<rparr>"

text \<open>An employee row and a department row that agree on \<open>dept\<close>, both have a
  list of tags, and disagree on \<open>boss\<close>.\<close>

definition ex_emp :: jsval where
  "ex_emp = JObj (Addr 1) [(''id'', JNum 1), (''dept'', JStr ''A''), (''tags'', JArr (Addr 3) [JStr ''x'']),
     (''boss'', JStr ''Y'')]"

definition ex_dept :: jsval where
  "ex_dept = JObj (Addr 2) [(''dept'', JStr ''A''), (''manager'', JStr ''X''), (''_internal'', JNum 7),
     (''tags'', JArr (Addr 4) [JStr ''y'']), (''boss'', JStr ''Z'')]"

text \<open>The composite keys of the two sides, and the part of a key that one key path
  contributes.\<close>

definition rightKeyOf :: "js_runtime \<Rightarrow> join_condition list \<Rightarrow> jsval \<Rightarrow> string" where
  "rightKeyOf L conds r = createMultiConditionKey L r conds RightSide"

definition leftKeyOf :: "js_runtime \<Rightarrow> join_condition list \<Rightarrow> jsval \<Rightarrow> string" where
  "leftKeyOf L conds l = createMultiConditionKey L l conds LeftSide"


text \<open>The right rows a left row is joined with, and the rows it contributes to the output.\<close>

definition matchesOf :: "js_runtime \<Rightarrow> join_condition list \<Rightarrow> jsval list \<Rightarrow> jsval \<Rightarrow> jsval list" where
  "matchesOf L conds rightDataset l =
     filter (\<lambda>r. compareJoinConditions conds l r)
       (filter (\<lambda>r. rightKeyOf L conds r = leftKeyOf L conds l) rightDataset)"

definition leftRowOutput :: "js_runtime \<Rightarrow> join_condition list \<Rightarrow> join_type \<Rightarrow> transform option \<Rightarrow>
    jsval list \<Rightarrow> jsval \<Rightarrow> jsval list" where
  "leftRowOutput L conds joinType t rightDataset l =
     (if filter (\<lambda>r. rightKeyOf L conds r = leftKeyOf L conds l) rightDataset \<noteq> [] then
        map (\<lambda>r. mergeRows l r t) (matchesOf L conds rightDataset l)
      else if joinType = LeftJoin \<or> joinType = FullJoin then [mergeRows l JNull t]
      else [])"

text \<open>A row whose field \<open>k\<close> is null and a row without a field \<open>k\<close>; a condition on
  \<open>k\<close>, and the same condition with strict equality as its comparator.\<close>

definition ex_null_row :: jsval where
  "ex_null_row = JObj (Addr 1) [(''id'', JNum 1), (''k'', JNull)]"

definition ex_missing_row :: jsval where
  "ex_missing_row = JObj (Addr 2) [(''name'', JStr ''n'')]"

definition ex_k_condition :: join_condition where
  "ex_k_condition = \<lparr> leftKey = ''k'', rightKey = ''k'', comparator = None \<rparr>"


text \<open>A row whose id is the text \<open>1\<close> and a row whose id is the number \<open>1\<close>.\<close>

definition ex_id_condition :: join_condition where
  "ex_id_condition = \<lparr> leftKey = ''id'', rightKey = ''id'', comparator = None \<rparr>"

definition ex_text_id_row :: jsval where
  "ex_text_id_row = JObj (Addr 1) [(''id'', JStr ''1''), (''dept'', JStr ''A'')]"

definition ex_number_id_row :: jsval where
  "ex_number_id_row = JObj (Addr 2) [(''id'', JNum 1), (''manager'', JStr ''X'')]"

subsection \<open>Fuzzy join: the candidates of a left row\<close>

text \<open>What a \<open>Map\<close> or a \<open>Set\<close> compares of a key: a primitive value itself, the
  reference alone of an object, an array or a date.\<close>

fun ident :: "jsval \<Rightarrow> jsval" where
  "ident (JDate r t) = JDate r 0"
| "ident (JArr r xs) = JArr r []"
| "ident (JObj r fs) = JObj r []"
| "ident v = v"

text \<open>\<open>conditionMatches\<close> as the loop over a left row has it.\<close>

definition leftConditionMatches :: "js_runtime \<Rightarrow> fuse_search \<Rightarrow> fuzzy_options \<Rightarrow> jsval list \<Rightarrow>
    join_condition list \<Rightarrow> jsval \<Rightarrow> (join_condition \<times> (jsval \<times> rat) list) list" where
  "leftConditionMatches L search opts rightDataset conds leftRow =
     conditionMatches L search opts rightDataset (searchPatterns conds leftRow)"

text \<open>The scores a right row got from the conditions, in the order of the conditions,
  and the score the loop ends with for it: their average, and with OR logic the last
  of them.\<close>

definition rowScores :: "jsval \<Rightarrow> (join_condition \<times> (jsval \<times> rat) list) list \<Rightarrow> rat list" where
  "rowScores r cms =
     concat (map (\<lambda>(c, ms). map snd (filter (\<lambda>m. same_value_zero (fst m) r) ms)) cms)"

definition rowScore :: "fuzzy_options \<Rightarrow> rat list \<Rightarrow> rat" where
  "rowScore opts scores =
     (if useOrLogic opts then last scores
      else sum_list scores / of_nat (length scores))"

text \<open>The matches of all conditions in one list, those of one row, and the entry of
  the row in \<open>allMatchingRows\<close> after the loops.\<close>

definition flat :: "(join_condition \<times> (jsval \<times> rat) list) list \<Rightarrow> (join_condition \<times> jsval \<times> rat) list" where
  "flat cms = concat (map (\<lambda>(c, ms). map (Pair c) ms) cms)"

definition hits :: "jsval \<Rightarrow> (join_condition \<times> jsval \<times> rat) list \<Rightarrow> (join_condition \<times> rat) list" where
  "hits r ps = map (\<lambda>(c, x). (c, snd x)) (filter (\<lambda>(c, x). ident (fst x) = ident r) ps)"

definition expectedInfo :: "fuzzy_options \<Rightarrow> (join_condition \<times> rat) list \<Rightarrow> match_info" where
  "expectedInfo opts hs =
     (if useOrLogic opts then \<lparr> mi_conditions = [last hs], avgScore = snd (last hs) \<rparr>
      else \<lparr> mi_conditions = hs, avgScore = sum_list (map snd hs) / of_nat (length hs) \<rparr>)"

text \<open>An object that is neither an array nor a date.\<close>

definition is_plain_object :: "jsval \<Rightarrow> bool" where
  "is_plain_object v = (case v of JObj r fs \<Rightarrow> True | _ \<Rightarrow> False)"

text \<open>A search that lists no row twice, and a condition whose search found a row.\<close>

definition listedOnce :: "(jsval \<times> rat) list \<Rightarrow> bool" where
  "listedOnce ms = distinct (map (\<lambda>m. ident (fst m)) ms)"

definition matchedBy :: "jsval \<Rightarrow> join_condition \<times> (jsval \<times> rat) list \<Rightarrow> bool" where
  "matchedBy r cm = list_ex (\<lambda>m. same_value_zero (fst m) r) (snd cm)"

text \<open>Acceptance as the specification words it: by the average of the scores, with
  either logic.\<close>

definition averageScore :: "rat list \<Rightarrow> rat" where
  "averageScore scores = sum_list scores / of_nat (length scores)"

definition acceptedByAverage :: "fuzzy_options \<Rightarrow> join_condition list \<Rightarrow> rat list \<Rightarrow> bool" where
  "acceptedByAverage opts conds scores =
     (scores \<noteq> [] \<and> (useOrLogic opts \<or> length scores = length conds) \<and>
      averageScore scores \<le> threshold opts)"

text \<open>Example: a left row, one right row, two conditions, and a search that reports the
  score \<open>a\<close> on the key \<open>name\<close> and \<open>b\<close> on any other key.\<close>

definition ex_scores :: "rat \<Rightarrow> rat \<Rightarrow> fuse_search" where
  "ex_scores a b = (\<lambda>opts rows key pattern. map (\<lambda>row. (row, if key = ''name'' then a else b)) rows)"

definition ex_fuzzy_conditions :: "join_condition list" where
  "ex_fuzzy_conditions =
     [\<lparr> leftKey = ''name'', rightKey = ''name'', comparator = None \<rparr>,
      \<lparr> leftKey = ''city'', rightKey = ''city'', comparator = None \<rparr>]"

definition ex_person :: jsval where
  "ex_person = JObj (Addr 1) [(''name'', JStr ''Ann''), (''city'', JStr ''Rome'')]"

definition ex_candidate :: jsval where
  "ex_candidate = JObj (Addr 2) [(''name'', JStr ''Anne''), (''city'', JStr ''Roma'')]"

definition ex_and_options :: fuzzy_options where
  "ex_and_options = defaultFuzzyOptions\<lparr> enabled := True, includeScoreInResult := True \<rparr>"

definition ex_or_options :: fuzzy_options where
  "ex_or_options = ex_and_options\<lparr> useOrLogic := True \<rparr>"

section \<open>Verified properties\<close>

subsection \<open>The best join\<close>

lemma strategiesLoop_best:
  assumes "strategiesLoop L search d1 d2 d st ss = Inr st'"
  shows "if \<forall>s \<in> set ss. int (strategyCount L search d1 d2 d s) \<le> bestJoinCount st
         then bestJoinName st' = bestJoinName st \<and> bestJoinCount st' = bestJoinCount st
         else (\<exists>i < length ss.
                 bestJoinCount st < int (strategyCount L search d1 d2 d (ss ! i)) \<and>
                 (\<forall>j < i. strategyCount L search d1 d2 d (ss ! j) < strategyCount L search d1 d2 d (ss ! i)) \<and>
                 (\<forall>j < length ss. strategyCount L search d1 d2 d (ss ! j) \<le> strategyCount L search d1 d2 d (ss ! i)) \<and>
                 bestJoinName st' = name (ss ! i) \<and>
                 bestJoinCount st' = int (strategyCount L search d1 d2 d (ss ! i)))"
  using assms
proof (induction ss arbitrary: st)
  case Nil
  then show ?case by simp
next
  case (Cons s rest)
  let ?c = "strategyCount L search d1 d2 d"
  from Cons.prems obtain st1 where
    step: "strategyStep L search d1 d2 d st s = Inr st1" and
    loop: "strategiesLoop L search d1 d2 d st1 rest = Inr st'"
    by (auto split: sum.splits)
  from step obtain rows where rows: "strategyRows L search d1 d2 d s = Inr rows"
    and st1: "bestJoinName st1 = (if int (length rows) > bestJoinCount st then name s else bestJoinName st)"
             "bestJoinCount st1 = (if int (length rows) > bestJoinCount st then int (length rows) else bestJoinCount st)"
    by (auto simp: strategyStep_def split: sum.splits)
  have c: "?c s = length rows" using rows by (simp add: strategyCount_def)
  note IH = Cons.IH[OF loop]
  show ?case
  proof (cases "int (?c s) > bestJoinCount st")
    case True
    then have b1: "bestJoinName st1 = name s" "bestJoinCount st1 = int (?c s)" using st1 c by auto
    show ?thesis
    proof (cases "\<forall>t \<in> set rest. int (?c t) \<le> bestJoinCount st1")
      case all: True
      with IH have "bestJoinName st' = name s" "bestJoinCount st' = int (?c s)" using b1 by auto
      moreover have "\<forall>j < length (s # rest). ?c ((s # rest) ! j) \<le> ?c s"
        using all b1 by (auto simp: nth_Cons split: nat.splits)
      ultimately have "\<exists>i < length (s # rest).
                 bestJoinCount st < int (?c ((s # rest) ! i)) \<and>
                 (\<forall>j < i. ?c ((s # rest) ! j) < ?c ((s # rest) ! i)) \<and>
                 (\<forall>j < length (s # rest). ?c ((s # rest) ! j) \<le> ?c ((s # rest) ! i)) \<and>
                 bestJoinName st' = name ((s # rest) ! i) \<and>
                 bestJoinCount st' = int (?c ((s # rest) ! i))"
        using True by (intro exI[of _ 0]) simp
      then show ?thesis using True by auto
    next
      case False
      with IH obtain i where i: "i < length rest" "bestJoinCount st1 < int (?c (rest ! i))"
        "\<forall>j < i. ?c (rest ! j) < ?c (rest ! i)"
        "\<forall>j < length rest. ?c (rest ! j) \<le> ?c (rest ! i)"
        "bestJoinName st' = name (rest ! i)" "bestJoinCount st' = int (?c (rest ! i))"
        by auto
      have "\<exists>i < length (s # rest).
                 bestJoinCount st < int (?c ((s # rest) ! i)) \<and>
                 (\<forall>j < i. ?c ((s # rest) ! j) < ?c ((s # rest) ! i)) \<and>
                 (\<forall>j < length (s # rest). ?c ((s # rest) ! j) \<le> ?c ((s # rest) ! i)) \<and>
                 bestJoinName st' = name ((s # rest) ! i) \<and>
                 bestJoinCount st' = int (?c ((s # rest) ! i))"
        using i b1 True by (intro exI[of _ "Suc i"]) (auto simp: nth_Cons split: nat.splits)
      then show ?thesis using True by auto
    qed
  next
    case notbetter: False
    then have b1: "bestJoinName st1 = bestJoinName st" "bestJoinCount st1 = bestJoinCount st" using st1 c by auto
    show ?thesis
    proof (cases "\<forall>t \<in> set rest. int (?c t) \<le> bestJoinCount st1")
      case True
      with IH b1 notbetter show ?thesis by auto
    next
      case False
      with IH obtain i where i: "i < length rest" "bestJoinCount st1 < int (?c (rest ! i))"
        "\<forall>j < i. ?c (rest ! j) < ?c (rest ! i)"
        "\<forall>j < length rest. ?c (rest ! j) \<le> ?c (rest ! i)"
        "bestJoinName st' = name (rest ! i)" "bestJoinCount st' = int (?c (rest ! i))"
        by auto
      have "\<exists>i < length (s # rest).
                 bestJoinCount st < int (?c ((s # rest) ! i)) \<and>
                 (\<forall>j < i. ?c ((s # rest) ! j) < ?c ((s # rest) ! i)) \<and>
                 (\<forall>j < length (s # rest). ?c ((s # rest) ! j) \<le> ?c ((s # rest) ! i)) \<and>
                 bestJoinName st' = name ((s # rest) ! i) \<and>
                 bestJoinCount st' = int (?c ((s # rest) ! i))"
        using i b1 notbetter by (intro exI[of _ "Suc i"]) (auto simp: nth_Cons split: nat.splits)
      moreover have "\<not> (\<forall>t \<in> set (s # rest). int (?c t) \<le> bestJoinCount st)"
        using False b1 by auto
      ultimately show ?thesis by presburger
    qed
  qed
qed


lemma map_of_alist_set: "map_of (alist_set k v al) = (map_of al)(k \<mapsto> v)"
  by (induction al) auto

lemma strategiesLoop_results_other:
  assumes "strategiesLoop L search d1 d2 d st ss = Inr st'"
    and "k \<notin> set (map (\<lambda>s. property_key (name s)) ss)"
  shows "map_of (ss_joinResults st') k = map_of (ss_joinResults st) k"
  using assms
proof (induction ss arbitrary: st)
  case Nil
  then show ?case by simp
next
  case (Cons s rest)
  from Cons.prems(1) obtain st1 where
    step: "strategyStep L search d1 d2 d st s = Inr st1" and
    loop: "strategiesLoop L search d1 d2 d st1 rest = Inr st'"
    by (auto split: sum.splits)
  from step Cons.prems(2) have "map_of (ss_joinResults st1) k = map_of (ss_joinResults st) k"
    by (auto simp: strategyStep_def map_of_alist_set split: sum.splits)
  with Cons.IH[OF loop] Cons.prems(2) show ?case by simp
qed

lemma strategiesLoop_results:
  assumes "strategiesLoop L search d1 d2 d st ss = Inr st'"
    and "distinct (map (\<lambda>s. property_key (name s)) ss)"
    and "i < length ss"
  shows "\<exists>rows. strategyRows L search d1 d2 d (ss ! i) = Inr rows \<and>
           map_of (ss_joinResults st') (property_key (name (ss ! i))) =
             Some \<lparr> sr_count = length rows, sr_data = rows \<rparr>"
  using assms
proof (induction ss arbitrary: st i)
  case Nil
  then show ?case by simp
next
  case (Cons s rest)
  from Cons.prems(1) obtain st1 where
    step: "strategyStep L search d1 d2 d st s = Inr st1" and
    loop: "strategiesLoop L search d1 d2 d st1 rest = Inr st'"
    by (auto split: sum.splits)
  show ?case
  proof (cases i)
    case 0
    from step obtain rows where rows: "strategyRows L search d1 d2 d s = Inr rows"
      and r1: "map_of (ss_joinResults st1) (property_key (name s)) = Some \<lparr> sr_count = length rows, sr_data = rows \<rparr>"
      by (auto simp: strategyStep_def map_of_alist_set split: sum.splits)
    have "property_key (name s) \<notin> set (map (\<lambda>s. property_key (name s)) rest)"
      using Cons.prems(2) by simp
    from strategiesLoop_results_other[OF loop this] r1 rows 0 show ?thesis by simp
  next
    case (Suc i')
    with Cons.prems have "i' < length rest" "distinct (map (\<lambda>s. property_key (name s)) rest)" by auto
    from Cons.IH[OF loop this(2) this(1)] Suc show ?thesis by simp
  qed
qed

text \<open>A fuzzy join throws only where it sets the score on a value that is not an
  object, which takes a transform and \<open>includeScoreInResult\<close>.\<close>

lemma fold_err_total:
  assumes "\<And>s x. \<exists>s'. f s x = Inr s'"
  shows "\<exists>s'. fold_err f s xs = Inr s'"
proof (induction xs arbitrary: s)
  case Nil
  show ?case by simp
next
  case (Cons x xs)
  from assms obtain s1 where "f s x = Inr s1" by blast
  with Cons[of s1] show ?case by simp
qed

lemma mergeRows_object: "\<exists>q fs. mergeRows leftRow rightRow None = JObj q fs"
  by (simp add: mergeRows_def mergedRow_def Let_def split: jsval.splits)

lemma fuzzyJoinedRow_total:
  assumes "t = None \<or> \<not> includeScoreInResult opts"
  shows "\<exists>row. fuzzyJoinedRow opts t leftRow m = Inr row"
proof (cases "includeScoreInResult opts")
  case True
  with assms have t: "t = None" by simp
  from mergeRows_object[of leftRow "fst m"] obtain q fs where
    "mergeRows leftRow (fst m) None = JObj q fs" by blast
  with t True show ?thesis by (simp add: fuzzyJoinedRow_def)
next
  case False
  then show ?thesis by (simp add: fuzzyJoinedRow_def)
qed

lemma fuzzyLeftStep_total:
  assumes "t = None \<or> \<not> includeScoreInResult opts"
  shows "\<exists>st'. fuzzyLeftStep L search opts rightDataset conds joinType t st leftRow = Inr st'"
proof -
  have "\<exists>st'. fuzzyMatchStep opts joinType t leftRow st m = Inr st'" for st m
    using fuzzyJoinedRow_total[OF assms, of leftRow m] by (auto simp: fuzzyMatchStep_def)
  from fold_err_total[of "fuzzyMatchStep opts joinType t leftRow", OF this]
  show ?thesis by (simp add: fuzzyLeftStep_def Let_def)
qed

lemma performFuzzyJoin_total:
  assumes "t = None \<or> \<not> includeScoreInResult opts"
  shows "\<exists>rows. performFuzzyJoin L search leftDataset rightDataset conds joinType t opts = Inr rows"
proof -
  from fold_err_total[of "fuzzyLeftStep L search opts rightDataset conds joinType t",
      OF fuzzyLeftStep_total[OF assms]]
  obtain st where "fold_err (fuzzyLeftStep L search opts rightDataset conds joinType t)
                     \<lparr> joinedRows = [], matchedRightRows = [] \<rparr> leftDataset = Inr st"
    by blast
  then show ?thesis by (simp add: performFuzzyJoin_def)
qed

lemma strategiesLoop_total:
  assumes "\<forall>s \<in> set ss. conditions s \<noteq> [] \<and>
             (transform s = None \<or> \<not> enabled (fuzzyOptions s) \<or>
              \<not> includeScoreInResult (fuzzyOptions s))"
  shows "\<exists>st'. strategiesLoop L search d1 d2 d st ss = Inr st'"
  using assms
proof (induction ss arbitrary: st)
  case Nil
  then show ?case by simp
next
  case (Cons s rest)
  have "\<exists>rows. strategyRows L search d1 d2 d s = Inr rows"
  proof (cases "enabled (fuzzyOptions s)")
    case True
    with Cons.prems have "transform s = None \<or> \<not> includeScoreInResult (fuzzyOptions s)" by simp
    from performFuzzyJoin_total[OF this] Cons.prems True show ?thesis
      by (simp add: strategyRows_def performJoin_def)
  next
    case False
    with Cons.prems show ?thesis by (simp add: strategyRows_def performJoin_def)
  qed
  then obtain st1 where "strategyStep L search d1 d2 d st s = Inr st1"
    by (auto simp: strategyStep_def)
  with Cons show ?case by auto
qed

text \<open>
  Claim C3. When \<open>joinQueries\<close> runs a non-empty list of strategies (each with at least
  one condition, and none a fuzzy join that sets the score on the value of a transform,
  so that no join fails), the best join it reports is the first strategy,
  in the order of the list, whose number of joined rows is the greatest of all: no
  strategy joins more rows, and every earlier strategy joins strictly fewer. The reported
  name and count are those of that strategy; when the names of the strategies are
  distinct and the name is not empty, the reported rows are its rows.
\<close>

theorem joinQueries_bestJoin_first_max:
  assumes "joinStrategies \<noteq> []"
    and "\<forall>s \<in> set joinStrategies. conditions s \<noteq> [] \<and>
           (transform s = None \<or> \<not> enabled (fuzzyOptions s) \<or>
            \<not> includeScoreInResult (fuzzyOptions s))"
  shows "\<exists>out i. joinQueries L search data1 data2 d joinStrategies = Inr out \<and>
           i < length joinStrategies \<and>
           (\<forall>j < length joinStrategies.
              strategyCount L search data1 data2 d (joinStrategies ! j)
                \<le> strategyCount L search data1 data2 d (joinStrategies ! i)) \<and>
           (\<forall>j < i. strategyCount L search data1 data2 d (joinStrategies ! j)
                < strategyCount L search data1 data2 d (joinStrategies ! i)) \<and>
           bj_name (bestJoin out) = name (joinStrategies ! i) \<and>
           bj_count (bestJoin out) = int (strategyCount L search data1 data2 d (joinStrategies ! i)) \<and>
           (distinct (map (\<lambda>s. property_key (name s)) joinStrategies) \<and>
            name (joinStrategies ! i) \<noteq> None \<and> name (joinStrategies ! i) \<noteq> Some []
              \<longrightarrow> strategyRows L search data1 data2 d (joinStrategies ! i) = Inr (bj_data (bestJoin out)))"
proof -
  let ?st0 = "\<lparr> ss_joinResults = [], bestJoinName = None, bestJoinCount = - 1 \<rparr>"
  let ?c = "strategyCount L search data1 data2 d"
  from strategiesLoop_total[OF assms(2)] obtain st' where
    loop: "strategiesLoop L search data1 data2 d ?st0 joinStrategies = Inr st'" by blast
  have "\<not> (\<forall>s \<in> set joinStrategies. int (?c s) \<le> bestJoinCount ?st0)"
    using assms(1) by (cases joinStrategies) auto
  with strategiesLoop_best[OF loop] obtain i where i: "i < length joinStrategies"
    "\<forall>j < i. ?c (joinStrategies ! j) < ?c (joinStrategies ! i)"
    "\<forall>j < length joinStrategies. ?c (joinStrategies ! j) \<le> ?c (joinStrategies ! i)"
    "bestJoinName st' = name (joinStrategies ! i)"
    "bestJoinCount st' = int (?c (joinStrategies ! i))"
    by auto
  let ?out = "\<lparr> joinResults = ss_joinResults st',
                bestJoin =
                  \<lparr> bj_name = bestJoinName st',
                    bj_count = bestJoinCount st',
                    bj_data =
                      (case bestJoinName st' of
                         None \<Rightarrow> []
                       | Some n \<Rightarrow>
                           if n \<noteq> [] then
                             (case map_of (ss_joinResults st') n of
                                Some r \<Rightarrow> sr_data r
                              | None \<Rightarrow> [])
                           else []) \<rparr> \<rparr>"
  have out: "joinQueries L search data1 data2 d joinStrategies = Inr ?out"
    using loop by (simp add: joinQueries_def)
  have data: "strategyRows L search data1 data2 d (joinStrategies ! i) = Inr (bj_data (bestJoin ?out))"
    if "distinct (map (\<lambda>s. property_key (name s)) joinStrategies)"
      and "name (joinStrategies ! i) \<noteq> None" and "name (joinStrategies ! i) \<noteq> Some []"
  proof -
    from that(2) obtain n where n: "name (joinStrategies ! i) = Some n" by auto
    with that(3) have "n \<noteq> []" by simp
    from strategiesLoop_results[OF loop that(1) i(1)] n obtain rows where
      "strategyRows L search data1 data2 d (joinStrategies ! i) = Inr rows"
      "map_of (ss_joinResults st') n = Some \<lparr> sr_count = length rows, sr_data = rows \<rparr>"
      by (auto simp: property_key_def)
    then show ?thesis using n \<open>n \<noteq> []\<close> i(4) by simp
  qed
  show ?thesis
    apply (rule exI[of _ ?out], rule exI[of _ i])
    using out i data by simp
qed

text \<open>The strategies of the example join 3, 7, 7 and 2 rows; the best join is the one
  at index 1, not the one at index 2.\<close>

lemma ex_strategies_counts:
  "map (strategyCount ex_rt no_search ex_left ex_rights None) ex_strategies = [3, 7, 7, 2]"
  by code_simp

theorem joinQueries_bestJoin_witness:
  "ex_strategies \<noteq> [] \<and>
   list_all (\<lambda>s. conditions s \<noteq> [] \<and> transform s = None) ex_strategies \<and>
   (\<exists>out. joinQueries ex_rt no_search ex_left ex_rights None ex_strategies = Inr out \<and>
      bj_name (bestJoin out) = name (ex_strategies ! 1) \<and> bj_count (bestJoin out) = 7)"
proof -
  let ?c = "strategyCount ex_rt no_search ex_left ex_rights None"
  have h1: "ex_strategies \<noteq> []"
    by (simp add: ex_strategies_def)
  have h2: "\<forall>s \<in> set ex_strategies. conditions s \<noteq> [] \<and>
              (transform s = None \<or> \<not> enabled (fuzzyOptions s) \<or>
               \<not> includeScoreInResult (fuzzyOptions s))"
    by (simp add: ex_strategies_def ex_strategy_def)
  have len: "length ex_strategies = 4"
    by (simp add: ex_strategies_def)
  have c: "?c (ex_strategies ! 0) = 3" "?c (ex_strategies ! 1) = 7"
    "?c (ex_strategies ! 2) = 7" "?c (ex_strategies ! 3) = 2"
    using ex_strategies_counts by (simp_all add: ex_strategies_def)
  from joinQueries_bestJoin_first_max[OF h1 h2, of ex_rt no_search ex_left ex_rights None]
  obtain out i where out: "joinQueries ex_rt no_search ex_left ex_rights None ex_strategies = Inr out"
    and i: "i < length ex_strategies"
    and ge: "\<forall>j < length ex_strategies. ?c (ex_strategies ! j) \<le> ?c (ex_strategies ! i)"
    and lt: "\<forall>j < i. ?c (ex_strategies ! j) < ?c (ex_strategies ! i)"
    and nm: "bj_name (bestJoin out) = name (ex_strategies ! i)"
    and cnt: "bj_count (bestJoin out) = int (?c (ex_strategies ! i))"
    by blast
  from i len have cases: "i = 0 \<or> i = 1 \<or> i = 2 \<or> i = 3" by auto
  have ge1: "?c (ex_strategies ! 1) \<le> ?c (ex_strategies ! i)"
    using ge len by simp
  have "i \<noteq> 0"
  proof
    assume "i = 0"
    with ge1 c show False by simp
  qed
  moreover have "i \<noteq> 3"
  proof
    assume "i = 3"
    with ge1 c show False by simp
  qed
  moreover have "i \<noteq> 2"
  proof
    assume "i = 2"
    with lt have "?c (ex_strategies ! 1) < ?c (ex_strategies ! 2)" by simp
    with c show False by simp
  qed
  ultimately have "i = 1" using cases by auto
  moreover have "list_all (\<lambda>s. conditions s \<noteq> [] \<and> transform s = None) ex_strategies"
    by (simp add: ex_strategies_def ex_strategy_def)
  ultimately show ?thesis using out nm cnt c h1 by auto
qed

subsection \<open>The signature of a query\<close>





















subsection \<open>The signature of a row\<close>

lemma obj_set_fresh: "k \<notin> fst ` set acc \<Longrightarrow> obj_set k v acc = acc @ [(k, v)]"
  by (induction acc) auto

lemma publicFields_fold:
  assumes "distinct (map fst fs)" "fst ` set fs \<inter> fst ` set acc = {}"
  shows "foldl (\<lambda>acc (key, v). if \<not> starts_with_underscore key then obj_set key v acc else acc) acc fs =
         acc @ filter (\<lambda>(key, v). \<not> starts_with_underscore key) fs"
  using assms
proof (induction fs arbitrary: acc)
  case Nil
  then show ?case by simp
next
  case (Cons p fs)
  obtain k v where p: "p = (k, v)" by (cases p)
  from Cons.prems p have fresh: "k \<notin> fst ` set acc" and d: "distinct (map fst fs)"
    and k: "k \<notin> fst ` set fs" and disj: "fst ` set fs \<inter> fst ` set acc = {}"
    by auto
  show ?case
  proof (cases "starts_with_underscore k")
    case True
    with Cons.IH[OF d disj] p show ?thesis by simp
  next
    case False
    have "fst ` set fs \<inter> fst ` set (acc @ [(k, v)]) = {}" using disj k by auto
    from Cons.IH[OF d this] False p fresh show ?thesis by (simp add: obj_set_fresh)
  qed
qed

lemma stringify_same_fields:
  assumes "distinct (map fst fs)" "distinct (map fst gs)" "set fs = set gs"
  shows "json_stringify L (Some (sort (map fst fs))) (JObj r fs) =
         json_stringify L (Some (sort (map fst gs))) (JObj r' gs)"
proof -
  have m: "map_of fs = map_of gs" using assms by (simp add: map_of_inject_set)
  have "set (map fst fs) = set (map fst gs)" using assms(3) by simp
  then have "sort (map fst fs) = sort (map fst gs)"
    using assms(1,2) by (intro sorted_distinct_set_unique) simp_all
  with m show ?thesis by simp
qed

lemma rowSignatureData_of_row:
  assumes "same_fields row1 row2"
  shows "(if is_nullish row1 then Inl (Error ''TypeError'')
          else (case json_stringify L (Some (sort (own_keys row1))) row1 of
                  None \<Rightarrow> Inl (Error ''TypeError'') | Some s \<Rightarrow> Inr s)) =
         (if is_nullish row2 then Inl (Error ''TypeError'')
          else (case json_stringify L (Some (sort (own_keys row2))) row2 of
                  None \<Rightarrow> Inl (Error ''TypeError'') | Some s \<Rightarrow> Inr s))"
proof -
  from assms obtain r fs r' gs where rows: "row1 = JObj r fs" "row2 = JObj r' gs"
    and d: "distinct (map fst fs)" "distinct (map fst gs)" "set fs = set gs"
    by (auto simp: same_fields_def split: jsval.splits)
  from stringify_same_fields[OF d, of L r r'] rows show ?thesis
    by (simp only: own_keys_def own_entries.simps is_nullish.simps if_False)
qed

lemma pickFields_same_fields:
  assumes "same_fields row1 row2"
  shows "\<exists>r r' xs. pickFields fieldNames row1 = Inr (JObj r xs) \<and> pickFields fieldNames row2 = Inr (JObj r' xs)"
proof -
  from assms obtain r fs r' gs where rows: "row1 = JObj r fs" "row2 = JObj r' gs"
    and d: "distinct (map fst fs)" "distinct (map fst gs)" "set fs = set gs"
    by (auto simp: same_fields_def split: jsval.splits)
  have m: "map_of fs = map_of gs" using d by (simp add: map_of_inject_set)
  have k: "set (map fst fs) = set (map fst gs)" using d(3) by simp
  have g: "js_get row1 = js_get row2" using m rows by (intro ext) simp
  have h: "has_own row1 = has_own row2" using k rows by (intro ext) simp
  show ?thesis unfolding pickFields_def g h using rows by simp
qed

lemma publicFields_same_fields:
  assumes "same_fields row1 row2"
  shows "\<exists>r r' xs ys. publicFields row1 = Inr (JObj r xs) \<and> publicFields row2 = Inr (JObj r' ys) \<and>
           distinct (map fst xs) \<and> distinct (map fst ys) \<and> set xs = set ys"
proof -
  from assms obtain r fs r' gs where rows: "row1 = JObj r fs" "row2 = JObj r' gs"
    and d: "distinct (map fst fs)" "distinct (map fst gs)" "set fs = set gs"
    by (auto simp: same_fields_def split: jsval.splits)
  let ?P = "\<lambda>(key, v). \<not> starts_with_underscore key"
  have "publicFields row1 = Inr (JObj (New ''dataToHash'' [Some r]) (filter ?P fs))"
    "publicFields row2 = Inr (JObj (New ''dataToHash'' [Some r']) (filter ?P gs))"
    using publicFields_fold[OF d(1), of "[]"] publicFields_fold[OF d(2), of "[]"] rows
    by (simp_all add: publicFields_def)
  moreover have "distinct (map fst (filter ?P fs))" "distinct (map fst (filter ?P gs))"
    using d by (simp_all add: distinct_map_filter)
  moreover have "set (filter ?P fs) = set (filter ?P gs)" using d(3) by simp
  ultimately show ?thesis by blast
qed

lemma signature_of_same_object:
  "(if is_nullish (JObj r xs) then Inl (Error ''TypeError'')
    else (case json_stringify L (Some (sort (own_keys (JObj r xs)))) (JObj r xs) of
            None \<Rightarrow> Inl (Error ''TypeError'') | Some s \<Rightarrow> Inr s)) =
   (if is_nullish (JObj r' xs) then Inl (Error ''TypeError'')
    else (case json_stringify L (Some (sort (own_keys (JObj r' xs)))) (JObj r' xs) of
            None \<Rightarrow> Inl (Error ''TypeError'') | Some s \<Rightarrow> Inr s))"
  by (simp add: own_keys_def)

lemma rowSignatureData_order_invariant:
  assumes "same_fields row1 row2"
    and "\<forall>f. markingStrategy trackingOptions = ''custom'' \<and> customComparator trackingOptions = Some f
            \<longrightarrow> f row1 = f row2"
  shows "rowSignatureData L trackingOptions row1 = rowSignatureData L trackingOptions row2"
proof -
  note own = rowSignatureData_of_row[OF assms(1), of L]
  have pick: "(case pickFields fieldNames row1 of Inl e \<Rightarrow> Inl e
                | Inr d \<Rightarrow> if is_nullish d then Inl (Error ''TypeError'')
                    else (case json_stringify L (Some (sort (own_keys d))) d of
                            None \<Rightarrow> Inl (Error ''TypeError'') | Some s \<Rightarrow> Inr s)) =
              (case pickFields fieldNames row2 of Inl e \<Rightarrow> Inl e
                | Inr d \<Rightarrow> if is_nullish d then Inl (Error ''TypeError'')
                    else (case json_stringify L (Some (sort (own_keys d))) d of
                            None \<Rightarrow> Inl (Error ''TypeError'') | Some s \<Rightarrow> Inr s))" for fieldNames
  proof -
    from pickFields_same_fields[OF assms(1), of fieldNames] obtain r r' xs where
      "pickFields fieldNames row1 = Inr (JObj r xs)" "pickFields fieldNames row2 = Inr (JObj r' xs)"
      by blast
    then show ?thesis using signature_of_same_object[of r xs L r'] by (simp only: sum.case)
  qed
  have pub: "(case publicFields row1 of Inl e \<Rightarrow> Inl e
                | Inr d \<Rightarrow> if is_nullish d then Inl (Error ''TypeError'')
                    else (case json_stringify L (Some (sort (own_keys d))) d of
                            None \<Rightarrow> Inl (Error ''TypeError'') | Some s \<Rightarrow> Inr s)) =
              (case publicFields row2 of Inl e \<Rightarrow> Inl e
                | Inr d \<Rightarrow> if is_nullish d then Inl (Error ''TypeError'')
                    else (case json_stringify L (Some (sort (own_keys d))) d of
                            None \<Rightarrow> Inl (Error ''TypeError'') | Some s \<Rightarrow> Inr s))"
  proof -
    from publicFields_same_fields[OF assms(1)] obtain r r' xs ys where
      p: "publicFields row1 = Inr (JObj r xs)" "publicFields row2 = Inr (JObj r' ys)"
      and "distinct (map fst xs)" "distinct (map fst ys)" "set xs = set ys"
      by blast
    then have "same_fields (JObj r xs) (JObj r' ys)" by (simp add: same_fields_def)
    from rowSignatureData_of_row[OF this, of L] p show ?thesis by (simp only: sum.case)
  qed
  show ?thesis
  proof (cases "markingStrategy trackingOptions = ''hash''")
    case True
    then show ?thesis using pick pub
      by (cases "hashFields trackingOptions") (simp_all add: rowSignatureData_def dataToHash_def)
  next
    case nh: False
    show ?thesis
    proof (cases "markingStrategy trackingOptions = ''composite''")
      case True
      then show ?thesis using pick nh by (simp add: rowSignatureData_def dataToHash_def)
    next
      case nc: False
      show ?thesis
      proof (cases "markingStrategy trackingOptions = ''custom''")
        case False
        then show ?thesis using nh nc own by (simp add: rowSignatureData_def dataToHash_def)
      next
        case True
        show ?thesis
        proof (cases "customComparator trackingOptions")
          case None
          then show ?thesis using True nh nc own by (simp add: rowSignatureData_def dataToHash_def)
        next
          case (Some f)
          with assms(2) True have eq: "f row1 = f row2" by simp
          show ?thesis
          proof (cases "f row2")
            case None
            with eq Some True nh nc own show ?thesis by (simp add: rowSignatureData_def dataToHash_def)
          next
            case (Some v)
            with eq \<open>customComparator trackingOptions = Some f\<close> True nh nc show ?thesis
              by (simp add: rowSignatureData_def dataToHash_def)
          qed
        qed
      qed
    qed
  qed
qed

text \<open>
  Claim C6, as amended. Two rows that hold the same key/value pairs in different
  insertion orders have the same signature under every tracking configuration, unless
  the strategy is \<open>custom\<close> with an extraction function that itself tells the two rows
  apart: the built-in strategies (all fields, a list of hash fields, composite fields,
  the row as it is) sort the keys before hashing, a caller's function is hashed as it
  answers.
\<close>

theorem generateRowSignature_order_invariant:
  assumes "same_fields row1 row2"
    and "\<forall>f. markingStrategy trackingOptions = ''custom'' \<and> customComparator trackingOptions = Some f
            \<longrightarrow> f row1 = f row2"
  shows "generateRowSignature L sha256 trackingOptions row1 = generateRowSignature L sha256 trackingOptions row2"
  using rowSignatureData_order_invariant[OF assms, of L] by (simp add: generateRowSignature_def)

lemma ex_rows_same_fields: "same_fields ex_row_ab ex_row_ba"
  by (auto simp: same_fields_def ex_row_ab_def ex_row_ba_def)

theorem generateRowSignature_witness:
  "same_fields ex_row_ab ex_row_ba \<and>
   generateRowSignature ex_rt (\<lambda>s. s) defaultTrackingOptions ex_row_ab =
     generateRowSignature ex_rt (\<lambda>s. s) defaultTrackingOptions ex_row_ba \<and>
   generateRowSignature ex_rt (\<lambda>s. s) defaultTrackingOptions ex_row_ab =
     Inr [CHR ''{'', CHR 0x22, CHR ''a'', CHR 0x22, CHR '':'', CHR ''1'',
      CHR '','', CHR 0x22, CHR ''b'', CHR 0x22, CHR '':'', CHR ''2'', CHR ''}'']"
proof -
  have c: "\<forall>f. markingStrategy defaultTrackingOptions = ''custom'' \<and>
             customComparator defaultTrackingOptions = Some f \<longrightarrow> f ex_row_ab = f ex_row_ba"
    by (simp add: defaultTrackingOptions_def)
  have "generateRowSignature ex_rt (\<lambda>s. s) defaultTrackingOptions ex_row_ab =
     Inr [CHR ''{'', CHR 0x22, CHR ''a'', CHR 0x22, CHR '':'', CHR ''1'',
      CHR '','', CHR 0x22, CHR ''b'', CHR 0x22, CHR '':'', CHR ''2'', CHR ''}'']"
    by code_simp
  with generateRowSignature_order_invariant[OF ex_rows_same_fields c, of ex_rt "\<lambda>s. s"] ex_rows_same_fields
  show ?thesis by simp
qed

text \<open>
  As the claim states it, for every tracking configuration, it fails: with the custom
  extraction that answers the name of the first field, the rows \<open>{a: 1, b: 2}\<close> and
  \<open>{b: 2, a: 1}\<close> are hashed from different texts. The hash of the example is the
  identity, as any hash without a collision on the two texts tells them apart.
\<close>

theorem generateRowSignature_custom_counterexample:
  "same_fields ex_row_ab ex_row_ba \<and>
   rowSignatureData ex_rt firstFieldOptions ex_row_ab = Inr [CHR 0x22, CHR ''a'', CHR 0x22] \<and>
   rowSignatureData ex_rt firstFieldOptions ex_row_ba = Inr [CHR 0x22, CHR ''b'', CHR 0x22] \<and>
   generateRowSignature ex_rt (\<lambda>s. s) firstFieldOptions ex_row_ab \<noteq>
     generateRowSignature ex_rt (\<lambda>s. s) firstFieldOptions ex_row_ba"
proof -
  have a: "rowSignatureData ex_rt firstFieldOptions ex_row_ab = Inr [CHR 0x22, CHR ''a'', CHR 0x22]"
    by code_simp
  have b: "rowSignatureData ex_rt firstFieldOptions ex_row_ba = Inr [CHR 0x22, CHR ''b'', CHR 0x22]"
    by code_simp
  from a b ex_rows_same_fields show ?thesis by (simp add: generateRowSignature_def)
qed

subsection \<open>Result tracking\<close>

lemma map_of_obj_set: "map_of (obj_set k v fs) = (map_of fs)(k \<mapsto> v)"
  by (induction fs) auto

lemma tracking_of_markRow:
  "tracking_of (markRow now sig prev row) = expectedTracking now sig prev"
  by (cases prev) (simp_all add: tracking_of_def markRow_def map_of_obj_set trackingObject_def expectedTracking_def)

lemma fold_markStep:
  assumes "fold_err (markStep L sha256 clock opts index) st rows = Inr st'"
  shows "length (markedResults st') = length (markedResults st) + length rows \<and>
         newCount st' + previouslySeenCount st' = newCount st + previouslySeenCount st + length rows \<and>
         newCount st' = newCount st + length (filter (isNewRow L sha256 opts index) rows) \<and>
         take (length (markedResults st)) (markedResults st') = markedResults st \<and>
         (\<forall>i < length rows. \<exists>sig.
            generateRowSignature L sha256 opts (rows ! i) = Inr sig \<and>
            markedResults st' ! (length (markedResults st) + i) =
              markRow (clock (length (markedResults st) + i)) sig (index sig) (rows ! i))"
  using assms
proof (induction rows arbitrary: st)
  case Nil
  then show ?case by simp
next
  case (Cons row rows)
  from Cons.prems obtain st1 where
    step: "markStep L sha256 clock opts index st row = Inr st1" and
    rest: "fold_err (markStep L sha256 clock opts index) st1 rows = Inr st'"
    by (auto split: sum.splits)
  from step obtain sig where sig: "generateRowSignature L sha256 opts row = Inr sig"
    and m1: "markedResults st1 = markedResults st @ [markRow (clock (length (markedResults st))) sig (index sig) row]"
    and n1: "newCount st1 = (if index sig = None then newCount st + 1 else newCount st)"
    and p1: "previouslySeenCount st1 = (if index sig = None then previouslySeenCount st else previouslySeenCount st + 1)"
    by (auto simp: markStep_def Let_def split: sum.splits)
  note IH = Cons.IH[OF rest]
  have len1: "length (markedResults st1) = Suc (length (markedResults st))" using m1 by simp
  from IH have tk: "take (Suc (length (markedResults st))) (markedResults st') = markedResults st @ [markRow (clock (length (markedResults st))) sig (index sig) row]"
    using m1 len1 by simp
  have a: "length (markedResults st') = length (markedResults st) + length (row # rows)"
    using IH len1 by simp
  have b: "newCount st' + previouslySeenCount st' = newCount st + previouslySeenCount st + length (row # rows)"
    using IH n1 p1 by (simp split: if_splits)
  have isn: "isNewRow L sha256 opts index row = (index sig = None)"
    using sig by (simp add: isNewRow_def)
  have c: "newCount st' = newCount st + length (filter (isNewRow L sha256 opts index) (row # rows))"
    using IH n1 isn by (cases "index sig = None") simp_all
  have d: "take (length (markedResults st)) (markedResults st') = markedResults st"
  proof -
    have "take (length (markedResults st)) (take (Suc (length (markedResults st))) (markedResults st')) = markedResults st"
      by (simp only: tk) simp
    then show ?thesis by (simp add: min_def)
  qed
  have e: "\<exists>sig'. generateRowSignature L sha256 opts ((row # rows) ! i) = Inr sig' \<and>
            markedResults st' ! (length (markedResults st) + i) =
              markRow (clock (length (markedResults st) + i)) sig' (index sig') ((row # rows) ! i)"
    if "i < length (row # rows)" for i
  proof (cases i)
    case 0
    have "markedResults st' ! length (markedResults st) =
          take (Suc (length (markedResults st))) (markedResults st') ! length (markedResults st)"
      by simp
    also have "\<dots> = markRow (clock (length (markedResults st))) sig (index sig) row"
      by (simp only: tk) simp
    finally show ?thesis using 0 sig by simp
  next
    case (Suc j)
    with that have "j < length rows" by simp
    with IH obtain sig' where "generateRowSignature L sha256 opts (rows ! j) = Inr sig'"
      "markedResults st' ! (length (markedResults st1) + j) =
         markRow (clock (length (markedResults st1) + j)) sig' (index sig') (rows ! j)"
      by blast
    then show ?thesis using Suc len1 by simp
  qed
  from a b c d e show ?case by blast
qed

lemma roundedPercentage_nearest:
  assumes "0 < len"
  shows "\<exists>p. roundedPercentage n len = Some p \<and>
           \<bar>of_int p - (of_nat n / of_nat len) * (100 :: rat)\<bar> \<le> 1 / 2"
proof -
  let ?x = "(of_nat n / of_nat len) * (100 :: rat)"
  have "of_int \<lfloor>?x + 1 / 2\<rfloor> \<le> ?x + 1 / 2" by (rule of_int_floor_le)
  moreover have "?x + 1 / 2 < of_int \<lfloor>?x + 1 / 2\<rfloor> + 1"
    using floor_correct[of "?x + 1 / 2"] by simp
  ultimately have "\<bar>of_int \<lfloor>?x + 1 / 2\<rfloor> - ?x\<bar> \<le> 1 / 2" by linarith
  with assms show ?thesis by (simp add: roundedPercentage_def)
qed

text \<open>
  Claim C5, as amended. In a tracking pass that returns, the index is built from the
  executions the query store returns for the signature of the query, and every current
  row is annotated from it: when the signature of the row is in the index, with
  \<open>isNew = false\<close>, the indexed count plus one, and the first-seen time, last-seen time
  and execution ids of the index entry; otherwise with \<open>isNew = true\<close>, count one and the
  current time. The summary counts the new rows, and when there is at least one current
  row its percentage of new rows is an integer nearest to the exact percentage.
\<close>

theorem processResultTracking_marks:
  assumes "processResultTracking L sha256 clock getPrevious currentResults sql bindParams trackingOptions = Inr res"
  shows "\<exists>querySignature index.
           generateQuerySignature L sha256 sql bindParams = Inr querySignature \<and>
           buildPreviousResultsIndex L sha256 (getPrevious querySignature) trackingOptions = Inr index \<and>
           length (markedData res) = length currentResults \<and>
           (\<forall>i < length currentResults. \<exists>signature.
              generateRowSignature L sha256 trackingOptions (currentResults ! i) = Inr signature \<and>
              tracking_of (markedData res ! i) = expectedTracking (clock i) signature (index signature)) \<and>
           newRows (stats res) = length (filter (isNewRow L sha256 trackingOptions index) currentResults) \<and>
           newRows (stats res) + previouslySeenRows (stats res) = length currentResults \<and>
           (currentResults \<noteq> [] \<longrightarrow>
              (\<exists>p. newRowPercentage (stats res) = Some p \<and>
                 \<bar>of_int p - (of_nat (newRows (stats res)) / of_nat (length currentResults)) * (100 :: rat)\<bar>
                   \<le> 1 / 2))"
proof -
  let ?st0 = "\<lparr> markedResults = [], newCount = 0, previouslySeenCount = 0 \<rparr>"
  from assms obtain q index st where
    q: "generateQuerySignature L sha256 sql bindParams = Inr q" and
    index: "buildPreviousResultsIndex L sha256 (getPrevious q) trackingOptions = Inr index" and
    loop: "fold_err (markStep L sha256 clock trackingOptions index) ?st0 currentResults = Inr st" and
    res: "res = \<lparr> markedData = markedResults st,
                   stats = \<lparr> totalRows = length currentResults, newRows = newCount st,
                             previouslySeenRows = previouslySeenCount st,
                             executionsSearched = length (getPrevious q),
                             ts_querySignature = q,
                             newRowPercentage = roundedPercentage (newCount st) (length currentResults),
                             trackingStrategy = markingStrategy trackingOptions \<rparr> \<rparr>"
    by (auto simp: processResultTracking_def Let_def split: sum.splits)
  from fold_markStep[OF loop] have
    len: "length (markedResults st) = length currentResults" and
    sum: "newCount st + previouslySeenCount st = length currentResults" and
    new: "newCount st = length (filter (isNewRow L sha256 trackingOptions index) currentResults)" and
    rows: "\<forall>i < length currentResults. \<exists>signature.
            generateRowSignature L sha256 trackingOptions (currentResults ! i) = Inr signature \<and>
            markedResults st ! i = markRow (clock i) signature (index signature) (currentResults ! i)"
    by simp_all
  have marks: "\<forall>i < length currentResults. \<exists>signature.
              generateRowSignature L sha256 trackingOptions (currentResults ! i) = Inr signature \<and>
              tracking_of (markedData res ! i) = expectedTracking (clock i) signature (index signature)"
  proof (intro allI impI)
    fix i assume "i < length currentResults"
    with rows obtain signature where
      "generateRowSignature L sha256 trackingOptions (currentResults ! i) = Inr signature"
      "markedResults st ! i = markRow (clock i) signature (index signature) (currentResults ! i)"
      by blast
    then show "\<exists>signature.
              generateRowSignature L sha256 trackingOptions (currentResults ! i) = Inr signature \<and>
              tracking_of (markedData res ! i) = expectedTracking (clock i) signature (index signature)"
      using res by (simp add: tracking_of_markRow)
  qed
  have pct: "\<exists>p. newRowPercentage (stats res) = Some p \<and>
                 \<bar>of_int p - (of_nat (newRows (stats res)) / of_nat (length currentResults)) * (100 :: rat)\<bar>
                   \<le> 1 / 2" if "currentResults \<noteq> []"
  proof -
    from that have "0 < length currentResults" by simp
    from roundedPercentage_nearest[OF this, of "newCount st"] res show ?thesis by simp
  qed
  show ?thesis
    apply (rule exI[of _ q], rule exI[of _ index])
    using q index len sum new marks pct res by simp
qed

lemma ex_tracking_new_rows:
  "map_sum (\<lambda>e. e) (\<lambda>res. (newRows (stats res), previouslySeenRows (stats res), newRowPercentage (stats res)))
     (processResultTracking ex_rt (\<lambda>s. s) (\<lambda>i. ''now'') ex_previous ex_current ''select 1'' JNull
        defaultTrackingOptions) = Inr (1, 1, Some 50)"
  by code_simp

theorem processResultTracking_witness:
  "\<exists>res. processResultTracking ex_rt (\<lambda>s. s) (\<lambda>i. ''now'') ex_previous ex_current ''select 1'' JNull
            defaultTrackingOptions = Inr res \<and>
         length (markedData res) = 2 \<and> newRows (stats res) = 1 \<and>
         newRowPercentage (stats res) = Some 50"
proof -
  from ex_tracking_new_rows obtain res where
    r: "processResultTracking ex_rt (\<lambda>s. s) (\<lambda>i. ''now'') ex_previous ex_current ''select 1'' JNull
          defaultTrackingOptions = Inr res"
    and s: "newRows (stats res) = 1" "newRowPercentage (stats res) = Some 50"
    by (cases "processResultTracking ex_rt (\<lambda>s. s) (\<lambda>i. ''now'') ex_previous ex_current ''select 1''
                 JNull defaultTrackingOptions") auto
  from processResultTracking_marks[OF r] have "length (markedData res) = length ex_current"
    by blast
  with r s show ?thesis by (simp add: ex_current_def)
qed

text \<open>
  As the claim states it, for every pass, the summary does not hold: with no current row
  the quotient is zero by zero, and the percentage is NaN, not an integer.
\<close>

theorem processResultTracking_empty_counterexample:
  "map_sum (\<lambda>e. e) (\<lambda>res. newRowPercentage (stats res))
     (processResultTracking ex_rt (\<lambda>s. s) (\<lambda>i. ''now'') ex_previous [] ''select 1'' JNull
        defaultTrackingOptions) = Inr None"
  by code_simp

subsection \<open>The result store\<close>

lemma storeResult_Inr:
  assumes "storeResult L C env cfg st resultData = Inr (info, st')"
  shows "\<exists>dataString.
           json_stringify L None (dataOrEmpty (rd_data resultData)) = Some dataString \<and>
           table st (resultId env resultData) = None \<and>
           info = storedInfo env resultData \<and>
           table st' = (table st)(resultId env resultData \<mapsto> storageRow L C env cfg st resultData dataString) \<and>
           resultsCache st' = cache_set (resultsCacheSize cfg) (resultId env resultData)
                            (cachedEntry env resultData) (resultsCache st)"
proof (cases "json_stringify L None (dataOrEmpty (rd_data resultData))")
  case None
  with assms show ?thesis by (simp add: storeResult_def)
next
  case (Some dataString)
  with assms show ?thesis
    by (cases "table st (resultId env resultData)") (auto simp: storeResult_def)
qed

lemma res_id_storedInfo: "res_id (storedInfo env resultData) = resultId env resultData"
  by (simp add: storedInfo_def cachedEntry_def)

text \<open>
  Claim C8. A store call that succeeds inserts a row whose tier is \<open>large\<close> exactly when
  the length of the JSON text of the data exceeds the threshold of the configuration,
  and \<open>json\<close> (the inline tier) otherwise. In the large tier the bytes of the text are
  stored compressed exactly when compression is enabled, and as they are otherwise; in
  the inline tier the JSON value itself is stored and no bytes. The row count stored
  and returned is \<open>data.length\<close> at the time of the call: for an array, its length.
\<close>

theorem storeResult_tier:
  assumes "storeResult L C env cfg st resultData = Inr (info, st')"
  shows "\<exists>row dataString.
           table st' (res_id info) = Some row \<and>
           json_stringify L None (dataOrEmpty (rd_data resultData)) = Some dataString \<and>
           (col_storage_type row = ''large'') = (compressionThreshold cfg < length dataString) \<and>
           (col_storage_type row = ''json'') = (length dataString \<le> compressionThreshold cfg) \<and>
           col_is_compressed row =
             (compressionThreshold cfg < length dataString \<and> compressionEnabled st) \<and>
           col_data_large row =
             (if compressionThreshold cfg < length dataString
              then Some (if compressionEnabled st then gzip C (utf8_encode C dataString)
                         else utf8_encode C dataString)
              else None) \<and>
           col_data row =
             (if compressionThreshold cfg < length dataString then None else Some dataString) \<and>
           col_row_count row = rowCountOf (rd_data resultData) \<and>
           res_rowCount info = rowCountOf (rd_data resultData) \<and>
           (\<forall>r rows. rd_data resultData = JArr r rows \<longrightarrow>
              col_row_count row = JNum (of_nat (length rows)))"
proof -
  from storeResult_Inr[OF assms] obtain dataString where
    ds: "json_stringify L None (dataOrEmpty (rd_data resultData)) = Some dataString" and
    info: "info = storedInfo env resultData" and
    tab: "table st' = (table st)(resultId env resultData \<mapsto> storageRow L C env cfg st resultData dataString)"
    by blast
  let ?row = "storageRow L C env cfg st resultData dataString"
  have 1: "table st' (res_id info) = Some ?row"
    using tab info by (simp add: res_id_storedInfo)
  have 2: "(col_storage_type ?row = ''large'') = (compressionThreshold cfg < length dataString)"
    "(col_storage_type ?row = ''json'') = (length dataString \<le> compressionThreshold cfg)"
    by (auto simp: storageRow_def Let_def)
  have 3: "col_is_compressed ?row =
             (compressionThreshold cfg < length dataString \<and> compressionEnabled st)"
    by (auto simp: storageRow_def Let_def)
  have 4: "col_data_large ?row =
             (if compressionThreshold cfg < length dataString
              then Some (if compressionEnabled st then gzip C (utf8_encode C dataString)
                         else utf8_encode C dataString)
              else None)"
    by (simp add: storageRow_def Let_def)
  have 5: "col_data ?row =
             (if compressionThreshold cfg < length dataString then None else Some dataString)"
    using ds by (simp add: storageRow_def Let_def)
  have 6: "col_row_count ?row = rowCountOf (rd_data resultData)"
    by (simp add: storageRow_def Let_def)
  have 7: "res_rowCount info = rowCountOf (rd_data resultData)"
    using info by (simp add: storedInfo_def cachedEntry_def)
  have 8: "\<forall>r rows. rd_data resultData = JArr r rows \<longrightarrow>
              col_row_count ?row = JNum (of_nat (length rows))"
    by (simp add: storageRow_def Let_def rowCountOf_def)
  from 1 ds 2 3 4 5 6 7 8 show ?thesis by blast
qed

lemma ex_rows_text:
  "json_stringify ex_rt None ex_rows =
     Some [CHR ''['', CHR ''{'', CHR 0x22, CHR ''a'', CHR 0x22, CHR '':'', CHR ''1'', CHR ''}'', CHR '']'']"
  by code_simp

lemma ex_store:
  "\<exists>info st'. storeResult ex_rt ex_codecs ex_env ex_cfg ex_state ex_request = Inr (info, st')"
  by (simp add: storeResult_def ex_request_def ex_state_def dataOrEmpty_def ex_rows_def)

theorem storeResult_tier_witness:
  "\<exists>info st' row. storeResult ex_rt ex_codecs ex_env ex_cfg ex_state ex_request = Inr (info, st') \<and>
      table st' (res_id info) = Some row \<and> col_storage_type row = ''large'' \<and>
      col_is_compressed row \<and> col_data row = None \<and> col_row_count row = JNum 1"
proof -
  from ex_store obtain info st' where
    st: "storeResult ex_rt ex_codecs ex_env ex_cfg ex_state ex_request = Inr (info, st')" by blast
  have d: "dataOrEmpty (rd_data ex_request) = ex_rows"
    by (simp add: dataOrEmpty_def ex_request_def ex_rows_def)
  from storeResult_tier[OF st] obtain row dataString where
    r1: "table st' (res_id info) = Some row" and
    r2: "json_stringify ex_rt None (dataOrEmpty (rd_data ex_request)) = Some dataString" and
    r3: "(col_storage_type row = ''large'') = (compressionThreshold ex_cfg < length dataString)" and
    r4: "col_is_compressed row =
           (compressionThreshold ex_cfg < length dataString \<and> compressionEnabled ex_state)" and
    r5: "col_data row =
           (if compressionThreshold ex_cfg < length dataString then None else Some dataString)" and
    r6: "\<forall>r rows. rd_data ex_request = JArr r rows \<longrightarrow>
           col_row_count row = JNum (of_nat (length rows))"
    by blast
  from r2 d ex_rows_text have len: "length dataString = 9" by auto
  have big: "compressionThreshold ex_cfg < length dataString"
    using len by (simp add: ex_cfg_def)
  have "col_row_count row = JNum 1"
    using r6 by (simp add: ex_request_def ex_rows_def)
  with r1 r3 r4 r5 big
  have "table st' (res_id info) = Some row \<and> col_storage_type row = ''large'' \<and>
      col_is_compressed row \<and> col_data row = None \<and> col_row_count row = JNum 1"
    by (simp add: ex_state_def)
  with st show ?thesis by blast
qed

lemma deep_equal_refl: "deep_equal v v"
  by (simp add: deep_equal_def)

lemma map_of_cache_set:
  "map_of (cache_set n k v c) k = (if n = 0 then None else Some v)"
  by (cases n) (simp_all add: cache_set_def)

lemma decode_stored:
  assumes ds: "json_stringify L None (rd_data resultData) = Some dataString"
    and arr: "is_array (rd_data resultData)"
    and rep: "json_representable L C (rd_data resultData)"
    and ll: "lossless_on C dataString"
  shows "\<exists>v. decodeData C (storageRow L C env cfg st resultData dataString) = Some v \<and>
             deep_equal v (rd_data resultData)"
proof -
  from arr have tr: "dataOrEmpty (rd_data resultData) = rd_data resultData"
    by (cases "rd_data resultData") (simp_all add: dataOrEmpty_def)
  from rep ds obtain v where v: "json_parse C dataString = Some v" "deep_equal v (rd_data resultData)"
    by (auto simp: json_representable_def split: option.splits)
  from ll have u: "utf8_decode C (utf8_encode C dataString) = dataString"
    and g: "gunzip C (gzip C (utf8_encode C dataString)) = Some (utf8_encode C dataString)"
    by (simp_all add: lossless_on_def)
  show ?thesis
  proof (cases "compressionThreshold cfg < length dataString")
    case False
    then show ?thesis using v ds tr by (simp add: decodeData_def storageRow_def Let_def)
  next
    case True
    then show ?thesis using v u g
      by (cases "compressionEnabled st") (simp_all add: decodeData_def storageRow_def Let_def)
  qed
qed

text \<open>
  Claim C2. Let a row set (an array) be JSON-representable, and let the platform's
  coding and compression be lossless on its JSON text. After a store call that
  succeeds, fetching the returned id gives data deep-equal to the row set: in the
  state the call leaves, and in every later state that still has the row of the table
  and in which the cache either has dropped the entry or still has it. This holds for
  every threshold and with compression on and off, hence for the inline tier, the
  compressed and the uncompressed large tier, and whatever the configuration is at the
  time of the fetch.
\<close>

theorem store_fetch_round_trip:
  assumes store: "storeResult L C env cfg st resultData = Inr (info, st')"
    and arr: "is_array (rd_data resultData)"
    and rep: "json_representable L C (rd_data resultData)"
    and ll: "\<forall>s. json_stringify L None (rd_data resultData) = Some s \<longrightarrow> lossless_on C s"
    and later: "table st2 (res_id info) = table st' (res_id info)"
      "map_of (resultsCache st2) (res_id info) = None \<or>
       map_of (resultsCache st2) (res_id info) = map_of (resultsCache st') (res_id info)"
  shows "\<exists>fetched st3. getResultById C cfg2 st2 (res_id info) = Inr (fetched, st3) \<and>
           deep_equal (res_data fetched) (rd_data resultData)"
proof -
  from arr have tr: "dataOrEmpty (rd_data resultData) = rd_data resultData"
    by (cases "rd_data resultData") (simp_all add: dataOrEmpty_def)
  from storeResult_Inr[OF store] tr obtain dataString where
    ds: "json_stringify L None (rd_data resultData) = Some dataString" and
    info: "info = storedInfo env resultData" and
    tab: "table st' = (table st)(resultId env resultData \<mapsto> storageRow L C env cfg st resultData dataString)" and
    cache: "resultsCache st' = cache_set (resultsCacheSize cfg) (resultId env resultData)
                            (cachedEntry env resultData) (resultsCache st)"
    by auto
  have rid: "res_id info = resultId env resultData" using info by (simp add: res_id_storedInfo)
  let ?row = "storageRow L C env cfg st resultData dataString"
  have row: "table st2 (res_id info) = Some ?row" using later(1) tab rid by simp
  from ll ds have "lossless_on C dataString" by simp
  from decode_stored[OF ds arr rep this, of env cfg st] obtain v where
    v: "decodeData C ?row = Some v" "deep_equal v (rd_data resultData)" by blast
  have c': "map_of (resultsCache st') (res_id info) =
              (if resultsCacheSize cfg = 0 then None else Some (cachedEntry env resultData))"
    using cache rid by (simp add: map_of_cache_set)
  show ?thesis
  proof (cases "map_of (resultsCache st2) (res_id info)")
    case None
    then show ?thesis using row v by (simp add: getResultById_def cache_get_def Let_def)
  next
    case (Some cached)
    with later(2) c' have "cached = cachedEntry env resultData"
      by (auto split: if_splits)
    then have "res_data cached = rd_data resultData" by (simp add: cachedEntry_def)
    with Some show ?thesis by (simp add: getResultById_def cache_get_def deep_equal_refl)
  qed
qed

lemma ex_representable: "json_representable ex_rt ex_codecs ex_rows"
  using ex_rows_text by (simp add: json_representable_def ex_codecs_def ex_parse_def deep_equal_def)

lemma ex_lossless: "lossless_on ex_codecs s"
  by (simp add: lossless_on_def ex_codecs_def comp_def)

theorem store_fetch_round_trip_witness:
  "\<exists>info st' fetched st3.
     storeResult ex_rt ex_codecs ex_env ex_cfg ex_state ex_request = Inr (info, st') \<and>
     getResultById ex_codecs ex_cfg (st'\<lparr> resultsCache := [] \<rparr>) (res_id info) = Inr (fetched, st3) \<and>
     deep_equal (res_data fetched) ex_rows"
proof -
  from ex_store obtain info st' where
    st: "storeResult ex_rt ex_codecs ex_env ex_cfg ex_state ex_request = Inr (info, st')" by blast
  have arr: "is_array (rd_data ex_request)" by (simp add: ex_request_def ex_rows_def)
  have rep: "json_representable ex_rt ex_codecs (rd_data ex_request)"
    using ex_representable by (simp add: ex_request_def)
  have ll: "\<forall>s. json_stringify ex_rt None (rd_data ex_request) = Some s \<longrightarrow> lossless_on ex_codecs s"
    by (simp add: ex_lossless)
  have t: "table (st'\<lparr> resultsCache := [] \<rparr>) (res_id info) = table st' (res_id info)" by simp
  have c: "map_of (resultsCache (st'\<lparr> resultsCache := [] \<rparr>)) (res_id info) = None \<or>
           map_of (resultsCache (st'\<lparr> resultsCache := [] \<rparr>)) (res_id info) =
             map_of (resultsCache st') (res_id info)" by simp
  from store_fetch_round_trip[OF st arr rep ll t c, of ex_cfg] st show ?thesis
    by (auto simp: ex_request_def)
qed

subsection \<open>Merging two rows\<close>



lemma ex_merge:
  "mergeRows ex_emp ex_dept None =
     JObj (New ''mergeRows'' [Some (Addr 1), Some (Addr 2)])
       [(''id'', JNum 1), (''dept'', JStr ''A''),
        (''tags'', JArr (New ''concat'' [Some (Addr 3), Some (Addr 4)]) [JStr ''x'', JStr ''y'']),
        (''boss'', JStr ''Y''), (''manager'', JStr ''X''), (''right_boss'', JStr ''Z'')]"
  by code_simp


subsection \<open>The exact join\<close>

lemma lookup_fold:
  "foldl (\<lambda>lookupMap rightRow.
              let key = createMultiConditionKey L rightRow conds RightSide
              in lookupMap(key \<mapsto> (case lookupMap key of None \<Rightarrow> [] | Some rs \<Rightarrow> rs) @ [rightRow]))
         m rs k =
   (let ms = filter (\<lambda>r. rightKeyOf L conds r = k) rs
    in case m k of
         None \<Rightarrow> if ms = [] then None else Some ms
       | Some xs \<Rightarrow> Some (xs @ ms))"
proof (induction rs arbitrary: m)
  case Nil
  then show ?case by (simp split: option.splits)
next
  case (Cons r rs)
  show ?case
    by (simp only: foldl_Cons Cons.IH) (auto simp: Let_def rightKeyOf_def split: option.splits)
qed

lemma buildLookupMap_bucket:
  "(case buildLookupMap L rightDataset conds k of None \<Rightarrow> [] | Some rs \<Rightarrow> rs) =
     filter (\<lambda>r. rightKeyOf L conds r = k) rightDataset"
  unfolding buildLookupMap_def lookup_fold by (simp add: Let_def)

lemma joinedRows_matchStep:
  "joinedRows (foldl (exactMatchStep conds joinType t l) st ms) =
     joinedRows st @ map (\<lambda>r. mergeRows l r t) (filter (\<lambda>r. compareJoinConditions conds l r) ms)"
  by (induction ms arbitrary: st) (simp_all add: exactMatchStep_def)

lemma joinedRows_leftStep:
  "joinedRows (exactLeftStep L (buildLookupMap L rightDataset conds) conds joinType t st l) =
     joinedRows st @ leftRowOutput L conds joinType t rightDataset l"
proof -
  have b: "(case buildLookupMap L rightDataset conds (createMultiConditionKey L l conds LeftSide) of
              None \<Rightarrow> [] | Some rs \<Rightarrow> rs) =
           filter (\<lambda>r. rightKeyOf L conds r = leftKeyOf L conds l) rightDataset"
    using buildLookupMap_bucket[of L rightDataset conds "leftKeyOf L conds l"]
    by (simp add: leftKeyOf_def)
  show ?thesis
    unfolding exactLeftStep_def Let_def b
    by (simp add: joinedRows_matchStep leftRowOutput_def matchesOf_def)
qed

lemma joinedRows_leftLoop:
  "joinedRows (foldl (exactLeftStep L (buildLookupMap L rightDataset conds) conds joinType t) st leftDataset) =
     joinedRows st @ concat (map (leftRowOutput L conds joinType t rightDataset) leftDataset)"
  by (induction leftDataset arbitrary: st) (simp_all add: joinedRows_leftStep)

lemma performExactJoin_inner:
  "performExactJoin L leftDataset rightDataset conds Inner t =
     concat (map (\<lambda>l. map (\<lambda>r. mergeRows l r t) (matchesOf L conds rightDataset l)) leftDataset)"
proof -
  have "leftRowOutput L conds Inner t rightDataset = (\<lambda>l. map (\<lambda>r. mergeRows l r t) (matchesOf L conds rightDataset l))"
    by (rule ext) (auto simp: leftRowOutput_def matchesOf_def filter_empty_conv)
  then show ?thesis
    by (simp add: performExactJoin_def Let_def unmatchedRightRows_def joinedRows_leftLoop)
qed

lemma exact_inner_join_sound:
  assumes "x \<in> set (performExactJoin L leftDataset rightDataset conds Inner t)"
  shows "\<exists>l \<in> set leftDataset. \<exists>r \<in> set rightDataset.
           compareJoinConditions conds l r \<and> x = mergeRows l r t"
  using assms by (auto simp: performExactJoin_inner matchesOf_def)







lemma ex_null_join:
  "performExactJoin ex_rt [ex_null_row] [ex_missing_row] [ex_k_condition] Inner None =
     [JObj (New ''mergeRows'' [Some (Addr 1), Some (Addr 2)])
        [(''id'', JNum 1), (''k'', JNull), (''name'', JStr ''n'')]]"
  by code_simp



text \<open>
  Claim C1, at the input where the code departs from it. The left row has the id
  \<open>'1'\<close>, a text, the right row the id \<open>1\<close>, a number: the two have the same composite
  key and are not equal, so neither has a matching counterpart. The left join gives no
  row at all: the left row is dropped, where the claim has it once, merged with null.
  The full join drops it too and gives the right row merged with null; with no right row
  at all the left join gives the left row.
\<close>

theorem exact_left_join_drops_row:
  "\<not> compareJoinConditions [ex_id_condition] ex_text_id_row ex_number_id_row \<and>
   performExactJoin ex_rt [ex_text_id_row] [ex_number_id_row] [ex_id_condition] LeftJoin None = [] \<and>
   performExactJoin ex_rt [ex_text_id_row] [ex_number_id_row] [ex_id_condition] FullJoin None =
     [mergeRows JNull ex_number_id_row None] \<and>
   performExactJoin ex_rt [ex_text_id_row] [] [ex_id_condition] LeftJoin None =
     [mergeRows ex_text_id_row JNull None]"
  by code_simp

text \<open>Hence the left row is in the left dataset and no row of the output comes from it:
  the output is empty.\<close>

theorem exact_left_join_drops_row_witness:
  "ex_text_id_row \<in> set [ex_text_id_row] \<and>
   set (performExactJoin ex_rt [ex_text_id_row] [ex_number_id_row] [ex_id_condition] LeftJoin None) = {}"
  using exact_left_join_drops_row by simp

subsection \<open>Fuzzy join\<close>

lemma same_value_zero_ident: "same_value_zero a b = (ident a = ident b)"
  by (cases a; cases b) simp_all

lemma rowmap_get_cong: "ident k = ident k' \<Longrightarrow> rowmap_get m k = rowmap_get m k'"
  by (induction m) (auto simp: same_value_zero_ident)

lemma rowmap_get_set:
  "rowmap_get (rowmap_set m k v) k' = (if ident k' = ident k then Some v else rowmap_get m k')"
  by (induction m) (auto simp: same_value_zero_ident)

lemma rowmap_set_keys:
  "set (map (\<lambda>p. ident (fst p)) (rowmap_set m k v)) = insert (ident k) (set (map (\<lambda>p. ident (fst p)) m))"
proof (induction m)
  case Nil
  then show ?case by simp
next
  case (Cons p m)
  obtain k' v' where p: "p = (k', v')" by (cases p)
  show ?case
  proof (cases "ident k' = ident k")
    case True
    with p show ?thesis by (simp add: same_value_zero_ident insert_absorb)
  next
    case False
    with p Cons.IH show ?thesis by (simp add: same_value_zero_ident insert_commute)
  qed
qed

lemma rowmap_set_distinct:
  "distinct (map (\<lambda>p. ident (fst p)) m) \<Longrightarrow> distinct (map (\<lambda>p. ident (fst p)) (rowmap_set m k v))"
proof (induction m)
  case Nil
  then show ?case by simp
next
  case (Cons p m)
  obtain k' v' where p: "p = (k', v')" by (cases p)
  show ?case
  proof (cases "same_value_zero k' k")
    case True
    with Cons.prems p show ?thesis by simp
  next
    case False
    then have "ident k' \<noteq> ident k" by (simp add: same_value_zero_ident)
    moreover have "set (map (\<lambda>p. ident (fst p)) (rowmap_set m k v)) =
                   insert (ident k) (set (map (\<lambda>p. ident (fst p)) m))"
      by (rule rowmap_set_keys)
    ultimately show ?thesis using Cons p False by auto
  qed
qed

lemma rowmap_entry_get:
  assumes "distinct (map (\<lambda>p. ident (fst p)) m)" "(k, v) \<in> set m"
  shows "rowmap_get m k = Some v"
  using assms
proof (induction m)
  case Nil
  then show ?case by simp
next
  case (Cons p m)
  obtain k' v' where p: "p = (k', v')" by (cases p)
  show ?case
  proof (cases "(k, v) = p")
    case True
    with p show ?thesis by (simp add: same_value_zero_ident)
  next
    case False
    with Cons.prems have in_m: "(k, v) \<in> set m" by simp
    then have "ident (fst (k, v)) \<in> (\<lambda>p. ident (fst p)) ` set m" by (rule imageI)
    then have km: "ident k \<in> (\<lambda>p. ident (fst p)) ` set m" by simp
    from Cons.prems(1) p have "ident k' \<notin> (\<lambda>p. ident (fst p)) ` set m" by simp
    with km have "ident k' \<noteq> ident k" by metis
    with Cons.IH in_m Cons.prems(1) p show ?thesis by (simp add: same_value_zero_ident)
  qed
qed

lemma rowmap_get_entry:
  assumes "rowmap_get m k = Some v"
  shows "\<exists>k'. ident k' = ident k \<and> (k', v) \<in> set m"
  using assms by (induction m) (auto simp: same_value_zero_ident split: if_splits)

lemma collectMatches_flat:
  "foldl (\<lambda>allMatchingRows (condition, matches).
              foldl (addMatch opts condition) allMatchingRows matches) m cms =
   foldl (\<lambda>m (c, x). addMatch opts c m x) m (flat cms)"
proof (induction cms arbitrary: m)
  case Nil
  then show ?case by (simp add: flat_def)
next
  case (Cons p cms)
  obtain c ms where p: "p = (c, ms)" by (cases p)
  have "foldl (\<lambda>m (c, x). addMatch opts c m x) m (map (Pair c) ms) = foldl (addMatch opts c) m ms" for m
    by (induction ms arbitrary: m) simp_all
  with Cons p show ?case by (simp add: flat_def)
qed

lemma addMatch_get:
  assumes inv: "\<And>r. rowmap_get m r = (if hits r ps = [] then None else Some (expectedInfo opts (hits r ps)))"
  shows "rowmap_get (addMatch opts c m x) r =
           (if hits r (ps @ [(c, x)]) = [] then None else Some (expectedInfo opts (hits r (ps @ [(c, x)]))))"
proof (cases "ident r = ident (fst x)")
  case False
  then have h: "hits r (ps @ [(c, x)]) = hits r ps" by (auto simp: hits_def)
  have "rowmap_get (addMatch opts c m x) r = rowmap_get m r"
    using False by (auto simp: addMatch_def Let_def rowmap_get_set split: option.splits)
  with inv h show ?thesis by simp
next
  case True
  then have h: "hits r (ps @ [(c, x)]) = hits r ps @ [(c, snd x)]" by (simp add: hits_def)
  have hx: "hits (fst x) ps = hits r ps" using True by (simp add: hits_def)
  have g: "rowmap_get m (fst x) = (if hits r ps = [] then None else Some (expectedInfo opts (hits r ps)))"
    using inv[of "fst x"] hx by simp
  show ?thesis
  proof (cases "hits r ps = [] \<or> useOrLogic opts")
    case c1: True
    then have "rowmap_get (addMatch opts c m x) r =
                 Some \<lparr> mi_conditions = [(c, snd x)], avgScore = snd x \<rparr>"
      using g True by (auto simp: addMatch_def Let_def rowmap_get_set)
    moreover have "expectedInfo opts (hits r ps @ [(c, snd x)]) = \<lparr> mi_conditions = [(c, snd x)], avgScore = snd x \<rparr>"
      using c1 by (auto simp: expectedInfo_def)
    ultimately show ?thesis using h by simp
  next
    case c2: False
    then have ne: "hits r ps \<noteq> []" and a: "\<not> useOrLogic opts" by simp_all
    from g ne have g': "rowmap_get m (fst x) = Some (expectedInfo opts (hits r ps))" by simp
    have "rowmap_get (addMatch opts c m x) r =
            Some \<lparr> mi_conditions = hits r ps @ [(c, snd x)],
                   avgScore = sum_list (map snd (hits r ps @ [(c, snd x)])) /
                              of_nat (length (hits r ps @ [(c, snd x)])) \<rparr>"
      using g' a True by (simp add: addMatch_def Let_def rowmap_get_set expectedInfo_def)
    moreover have "expectedInfo opts (hits r ps @ [(c, snd x)]) =
            \<lparr> mi_conditions = hits r ps @ [(c, snd x)],
                   avgScore = sum_list (map snd (hits r ps @ [(c, snd x)])) /
                              of_nat (length (hits r ps @ [(c, snd x)])) \<rparr>"
      using a by (simp add: expectedInfo_def)
    ultimately show ?thesis using h by simp
  qed
qed

lemma addMatch_distinct:
  "distinct (map (\<lambda>p. ident (fst p)) m) \<Longrightarrow> distinct (map (\<lambda>p. ident (fst p)) (addMatch opts c m x))"
  by (auto simp: addMatch_def Let_def rowmap_set_distinct split: option.splits)

lemma fold_addMatch:
  assumes "\<And>r. rowmap_get m r = (if hits r ps = [] then None else Some (expectedInfo opts (hits r ps)))"
    and "distinct (map (\<lambda>p. ident (fst p)) m)"
  shows "(\<forall>r. rowmap_get (foldl (\<lambda>m (c, x). addMatch opts c m x) m qs) r =
            (if hits r (ps @ qs) = [] then None else Some (expectedInfo opts (hits r (ps @ qs))))) \<and>
         distinct (map (\<lambda>p. ident (fst p)) (foldl (\<lambda>m (c, x). addMatch opts c m x) m qs))"
  using assms
proof (induction qs arbitrary: m ps)
  case Nil
  then show ?case by simp
next
  case (Cons q qs)
  obtain c x where q: "q = (c, x)" by (cases q)
  have 1: "\<And>r. rowmap_get (addMatch opts c m x) r =
           (if hits r (ps @ [(c, x)]) = [] then None else Some (expectedInfo opts (hits r (ps @ [(c, x)]))))"
    by (rule addMatch_get) (rule Cons.prems(1))
  have 2: "distinct (map (\<lambda>p. ident (fst p)) (addMatch opts c m x))"
    by (rule addMatch_distinct) (rule Cons.prems(2))
  from Cons.IH[of "addMatch opts c m x" "ps @ [(c, x)]", OF 1 2] q show ?case by simp
qed

lemma collectMatches_get:
  "rowmap_get (collectMatches opts cms) r =
     (if hits r (flat cms) = [] then None else Some (expectedInfo opts (hits r (flat cms))))"
  and collectMatches_distinct: "distinct (map (\<lambda>p. ident (fst p)) (collectMatches opts cms))"
  using fold_addMatch[of "[]" "[]" opts "flat cms"]
  by (simp_all add: collectMatches_def collectMatches_flat hits_def)

lemma rowScores_hits: "rowScores r cms = map snd (hits r (flat cms))"
proof -
  have "map snd (hits r (concat (map (\<lambda>(c, ms). map (Pair c) ms) cms))) =
        concat (map (\<lambda>(c, ms). map snd (filter (\<lambda>m. ident (fst m) = ident r) ms)) cms)"
    by (induction cms) (auto simp: hits_def filter_map comp_def)
  then show ?thesis by (simp add: rowScores_def flat_def same_value_zero_ident)
qed

lemma expectedInfo_score:
  assumes "hs \<noteq> []"
  shows "avgScore (expectedInfo opts hs) = rowScore opts (map snd hs) \<and>
         ((useOrLogic opts \<or> length (mi_conditions (expectedInfo opts hs)) = n) =
          (useOrLogic opts \<or> length (map snd hs) = n))"
  using assms by (auto simp: expectedInfo_def rowScore_def last_map)

lemma set_acceptedMatches:
  "set (acceptedMatches L search opts rightDataset conds leftRow) =
     {(r, avgScore info) | r info.
        (r, info) \<in> set (collectMatches opts (leftConditionMatches L search opts rightDataset conds leftRow)) \<and>
        (useOrLogic opts \<or> length (mi_conditions info) = length conds) \<and>
        avgScore info \<le> threshold opts}"
  by (auto simp: acceptedMatches_def matchingRows_def leftConditionMatches_def Let_def)

lemma accepted_iff:
  "(\<exists>r'. same_value_zero r' r \<and> (r', s) \<in> set (acceptedMatches L search opts rightDataset conds leftRow)) =
   (rowScores r (leftConditionMatches L search opts rightDataset conds leftRow) \<noteq> [] \<and>
    (useOrLogic opts \<or>
       length (rowScores r (leftConditionMatches L search opts rightDataset conds leftRow)) = length conds) \<and>
    s = rowScore opts (rowScores r (leftConditionMatches L search opts rightDataset conds leftRow)) \<and>
    s \<le> threshold opts)"
proof -
  let ?cms = "leftConditionMatches L search opts rightDataset conds leftRow"
  let ?m = "collectMatches opts ?cms"
  let ?hs = "hits r (flat ?cms)"
  have hs: "rowScores r ?cms = map snd ?hs" by (rule rowScores_hits)
  show ?thesis
  proof
    assume "\<exists>r'. same_value_zero r' r \<and> (r', s) \<in> set (acceptedMatches L search opts rightDataset conds leftRow)"
    then obtain r' info where id: "ident r' = ident r" and e: "(r', info) \<in> set ?m"
      and c: "useOrLogic opts \<or> length (mi_conditions info) = length conds"
      and t: "avgScore info \<le> threshold opts" and s: "s = avgScore info"
      by (auto simp: set_acceptedMatches same_value_zero_ident)
    from rowmap_entry_get[OF collectMatches_distinct e] have "rowmap_get ?m r' = Some info" .
    with rowmap_get_cong[OF id, of ?m] have "rowmap_get ?m r = Some info" by simp
    then have ne: "?hs \<noteq> []" and info: "info = expectedInfo opts ?hs"
      by (simp_all add: collectMatches_get split: if_splits)
    from expectedInfo_score[OF ne, of opts "length conds"] info c t s hs ne
    show "rowScores r ?cms \<noteq> [] \<and> (useOrLogic opts \<or> length (rowScores r ?cms) = length conds) \<and>
          s = rowScore opts (rowScores r ?cms) \<and> s \<le> threshold opts"
      by simp
  next
    assume a: "rowScores r ?cms \<noteq> [] \<and> (useOrLogic opts \<or> length (rowScores r ?cms) = length conds) \<and>
          s = rowScore opts (rowScores r ?cms) \<and> s \<le> threshold opts"
    with hs have ne: "?hs \<noteq> []" by auto
    then have "rowmap_get ?m r = Some (expectedInfo opts ?hs)" by (simp add: collectMatches_get)
    from rowmap_get_entry[OF this] obtain r' where id: "ident r' = ident r"
      and e: "(r', expectedInfo opts ?hs) \<in> set ?m" by blast
    from expectedInfo_score[OF ne, of opts "length conds"] a hs
    have "useOrLogic opts \<or> length (mi_conditions (expectedInfo opts ?hs)) = length conds"
      "avgScore (expectedInfo opts ?hs) \<le> threshold opts" "s = avgScore (expectedInfo opts ?hs)"
      by simp_all
    with e have "(r', s) \<in> set (acceptedMatches L search opts rightDataset conds leftRow)"
      unfolding set_acceptedMatches by blast
    with id show "\<exists>r'. same_value_zero r' r \<and> (r', s) \<in> set (acceptedMatches L search opts rightDataset conds leftRow)"
      by (auto simp: same_value_zero_ident)
  qed
qed

lemma accepted_sorted:
  assumes "sortFuzzyResults opts"
  shows "sorted (map snd (acceptedMatches L search opts rightDataset conds leftRow))"
  using assms by (simp add: acceptedMatches_def matchingRows_def Let_def sorted_filter)

lemma conditionMatches_truncated:
  assumes "(c, ms) \<in> set (leftConditionMatches L search opts rightDataset conds leftRow)"
  shows "c \<in> set conds \<and> length ms \<le> maxResultsPerKey opts \<and>
         (\<exists>pattern. ms = take (maxResultsPerKey opts) (search opts rightDataset (rightKey c) pattern))"
  using assms
  by (auto simp: leftConditionMatches_def conditionMatches_def searchPatterns_def Let_def
           split: if_splits)

lemma score_attached:
  assumes "includeScoreInResult opts" "mergeRows leftRow r t = JObj q fs"
  shows "\<exists>row. fuzzyJoinedRow opts t leftRow (r, s) = Inr row \<and>
               js_get row ''_fuzzyScore'' = Some (JNum s) \<and>
               (\<forall>k. k \<noteq> ''_fuzzyScore'' \<longrightarrow> js_get row k = js_get (mergeRows leftRow r t) k)"
  using assms by (simp add: fuzzyJoinedRow_def map_of_obj_set)

lemma score_not_attached:
  assumes "\<not> includeScoreInResult opts"
  shows "fuzzyJoinedRow opts t leftRow m = Inr (mergeRows leftRow (fst m) t)"
  using assms by (simp add: fuzzyJoinedRow_def)

lemma fold_fuzzyMatchStep:
  assumes "list_all (\<lambda>m. is_plain_object (mergeRows leftRow (fst m) t)) ms"
  shows "\<exists>st' rows. fold_err (fuzzyMatchStep opts joinType t leftRow) st ms = Inr st' \<and>
               joinedRows st' = joinedRows st @ rows \<and>
               list_all2 (\<lambda>row m. fuzzyJoinedRow opts t leftRow m = Inr row) rows ms"
  using assms
proof (induction ms arbitrary: st)
  case Nil
  show ?case by simp
next
  case (Cons m ms)
  from Cons.prems obtain q fs where o: "mergeRows leftRow (fst m) t = JObj q fs"
    by (auto simp: is_plain_object_def split: jsval.splits)
  then obtain row where row: "fuzzyJoinedRow opts t leftRow m = Inr row"
    by (cases "includeScoreInResult opts") (simp_all add: fuzzyJoinedRow_def)
  let ?st1 = "\<lparr> joinedRows = joinedRows st @ [row],
                matchedRightRows = markMatched joinType (fst m) (matchedRightRows st) \<rparr>"
  from Cons.prems have "list_all (\<lambda>m. is_plain_object (mergeRows leftRow (fst m) t)) ms" by simp
  from Cons.IH[OF this, of ?st1] obtain st' rows where r:
    "fold_err (fuzzyMatchStep opts joinType t leftRow) ?st1 ms = Inr st'"
    "joinedRows st' = joinedRows ?st1 @ rows"
    "list_all2 (\<lambda>row m. fuzzyJoinedRow opts t leftRow m = Inr row) rows ms"
    by blast
  from row have step: "fuzzyMatchStep opts joinType t leftRow st m = Inr ?st1"
    by (simp add: fuzzyMatchStep_def)
  have "fold_err (fuzzyMatchStep opts joinType t leftRow) st (m # ms) = Inr st'"
    using step r(1) by simp
  moreover have "joinedRows st' = joinedRows st @ (row # rows)" using r(2) by simp
  moreover have "list_all2 (\<lambda>row m. fuzzyJoinedRow opts t leftRow m = Inr row) (row # rows) (m # ms)"
    using row r(3) by simp
  ultimately show ?case by blast
qed

lemma fuzzy_joined_rows:
  assumes "leftConditionMatches L search opts rightDataset conds leftRow \<noteq> []"
    and "list_all (\<lambda>m. is_plain_object (mergeRows leftRow (fst m) t))
           (acceptedMatches L search opts rightDataset conds leftRow)"
  shows "\<exists>st' rows. fuzzyLeftStep L search opts rightDataset conds joinType t st leftRow = Inr st' \<and>
           joinedRows st' = joinedRows st @ rows \<and>
           list_all2 (\<lambda>row m. fuzzyJoinedRow opts t leftRow m = Inr row) rows
             (acceptedMatches L search opts rightDataset conds leftRow)"
proof -
  from assms(1) have "searchPatterns conds leftRow \<noteq> []"
    by (auto simp: leftConditionMatches_def conditionMatches_def)
  with assms(1) fold_fuzzyMatchStep[OF assms(2), of opts joinType st] show ?thesis
    by (simp add: fuzzyLeftStep_def Let_def leftConditionMatches_def)
qed

lemma length_filter_key:
  assumes "distinct (map f xs)"
  shows "length (filter (\<lambda>x. f x = a) xs) = (if a \<in> f ` set xs then 1 else 0)"
  using assms by (induction xs) auto

lemma rowScores_count:
  assumes "list_all (\<lambda>cm. listedOnce (snd cm)) cms"
  shows "length (rowScores r cms) = length (filter (matchedBy r) cms)"
  using assms
proof (induction cms)
  case Nil
  show ?case by (simp add: rowScores_def)
next
  case (Cons cm cms)
  obtain c ms where cm: "cm = (c, ms)" by (cases cm)
  from Cons.prems cm have d: "distinct (map (\<lambda>m. ident (fst m)) ms)" by (simp add: listedOnce_def)
  have m: "matchedBy r cm = (ident r \<in> (\<lambda>m. ident (fst m)) ` set ms)"
    unfolding matchedBy_def cm list_ex_iff same_value_zero_ident by force
  have "length (filter (\<lambda>m. same_value_zero (fst m) r) ms) =
        (if matchedBy r cm then 1 else 0)"
    unfolding m same_value_zero_ident by (rule length_filter_key[OF d])
  moreover from Cons have "length (rowScores r cms) = length (filter (matchedBy r) cms)" by simp
  ultimately show ?case by (simp add: rowScores_def cm)
qed

lemma leftConditionMatches_length:
  "length (leftConditionMatches L search opts rightDataset conds leftRow) \<le> length conds"
proof -
  have a: "length (conditionMatches L search opts rightDataset ps) \<le> length ps" for ps
    by (induction ps) (auto simp: conditionMatches_def Let_def)
  have "length (searchPatterns conds leftRow) \<le> length conds"
    by (simp add: searchPatterns_def)
  with a[of "searchPatterns conds leftRow"] show ?thesis
    by (simp add: leftConditionMatches_def)
qed

lemma matched_all:
  assumes "list_all (\<lambda>cm. listedOnce (snd cm))
             (leftConditionMatches L search opts rightDataset conds leftRow)"
  shows "(length (rowScores r (leftConditionMatches L search opts rightDataset conds leftRow)) = length conds) =
         (length (leftConditionMatches L search opts rightDataset conds leftRow) = length conds \<and>
          list_all (matchedBy r) (leftConditionMatches L search opts rightDataset conds leftRow))"
proof -
  let ?cms = "leftConditionMatches L search opts rightDataset conds leftRow"
  have c: "length (rowScores r ?cms) = length (filter (matchedBy r) ?cms)"
    by (rule rowScores_count[OF assms])
  have l: "length ?cms \<le> length conds" by (rule leftConditionMatches_length)
  have s: "length (filter (matchedBy r) ?cms) + length (filter (\<lambda>cm. \<not> matchedBy r cm) ?cms) = length ?cms"
    by (rule sum_length_filter_compl)
  show ?thesis
  proof
    assume "length (rowScores r ?cms) = length conds"
    with c l s have "length ?cms = length conds" "length (filter (\<lambda>cm. \<not> matchedBy r cm) ?cms) = 0"
      by linarith+
    then show "length ?cms = length conds \<and> list_all (matchedBy r) ?cms"
      by (simp add: filter_empty_conv list_all_iff)
  next
    assume "length ?cms = length conds \<and> list_all (matchedBy r) ?cms"
    then have "filter (matchedBy r) ?cms = ?cms" "length ?cms = length conds"
      by (simp_all add: list_all_iff)
    with c show "length (rowScores r ?cms) = length conds" by simp
  qed
qed

text \<open>
  Claim C4, with the score as the code computes it. In a fuzzy join, for every left row,
  a candidate right row \<open>r\<close> is accepted with the score \<open>s\<close> if and only if some
  condition found it, \<open>useOrLogic\<close> is set or the number of its per-condition scores is
  the number of conditions, \<open>s\<close> is its score and \<open>s\<close> is at most the threshold; its score
  is the average of its per-condition scores with AND logic, and the score of the last
  condition that found it with OR logic. When no search lists a row twice, the number of
  its scores is the number of conditions that found it, so that the count is reached
  exactly when every condition found it. The matches of each condition are those of the
  search cut to \<open>maxResultsPerKey\<close>; the accepted matches are in ascending order of
  score when \<open>sortFuzzyResults\<close> is set; the loop appends one row for each accepted
  match, in that order; and that row is the merged row, with the score under
  \<open>_fuzzyScore\<close> when \<open>includeScoreInResult\<close> is set.
\<close>

theorem fuzzy_join_acceptance:
  "((\<exists>r'. same_value_zero r' r \<and>
          (r', s) \<in> set (acceptedMatches L search opts rightDataset conds leftRow)) =
    (rowScores r (leftConditionMatches L search opts rightDataset conds leftRow) \<noteq> [] \<and>
     (useOrLogic opts \<or>
      length (rowScores r (leftConditionMatches L search opts rightDataset conds leftRow)) = length conds) \<and>
     s = rowScore opts (rowScores r (leftConditionMatches L search opts rightDataset conds leftRow)) \<and>
     s \<le> threshold opts)) \<and>
   (list_all (\<lambda>cm. listedOnce (snd cm)) (leftConditionMatches L search opts rightDataset conds leftRow) \<longrightarrow>
      (rowScores r (leftConditionMatches L search opts rightDataset conds leftRow) \<noteq> []) =
        list_ex (matchedBy r) (leftConditionMatches L search opts rightDataset conds leftRow) \<and>
      (length (rowScores r (leftConditionMatches L search opts rightDataset conds leftRow)) = length conds) =
        (length (leftConditionMatches L search opts rightDataset conds leftRow) = length conds \<and>
         list_all (matchedBy r) (leftConditionMatches L search opts rightDataset conds leftRow))) \<and>
   (\<forall>cm \<in> set (leftConditionMatches L search opts rightDataset conds leftRow).
      fst cm \<in> set conds \<and> length (snd cm) \<le> maxResultsPerKey opts \<and>
      (\<exists>pattern. snd cm = take (maxResultsPerKey opts)
                             (search opts rightDataset (rightKey (fst cm)) pattern))) \<and>
   (sortFuzzyResults opts \<longrightarrow>
      sorted (map snd (acceptedMatches L search opts rightDataset conds leftRow))) \<and>
   (leftConditionMatches L search opts rightDataset conds leftRow \<noteq> [] \<and>
    list_all (\<lambda>m. is_plain_object (mergeRows leftRow (fst m) t))
      (acceptedMatches L search opts rightDataset conds leftRow) \<longrightarrow>
      (\<exists>st' rows. fuzzyLeftStep L search opts rightDataset conds joinType t st leftRow = Inr st' \<and>
         joinedRows st' = joinedRows st @ rows \<and>
         list_all2 (\<lambda>row m. fuzzyJoinedRow opts t leftRow m = Inr row) rows
           (acceptedMatches L search opts rightDataset conds leftRow))) \<and>
   (includeScoreInResult opts \<and> is_plain_object (mergeRows leftRow r t) \<longrightarrow>
      (\<exists>row. fuzzyJoinedRow opts t leftRow (r, s) = Inr row \<and>
         js_get row ''_fuzzyScore'' = Some (JNum s) \<and>
         (\<forall>k. k \<noteq> ''_fuzzyScore'' \<longrightarrow> js_get row k = js_get (mergeRows leftRow r t) k))) \<and>
   (\<not> includeScoreInResult opts \<longrightarrow>
      fuzzyJoinedRow opts t leftRow (r, s) = Inr (mergeRows leftRow r t))"
proof -
  let ?cms = "leftConditionMatches L search opts rightDataset conds leftRow"
  let ?acc = "acceptedMatches L search opts rightDataset conds leftRow"
  have p1: "(\<exists>r'. same_value_zero r' r \<and> (r', s) \<in> set ?acc) =
    (rowScores r ?cms \<noteq> [] \<and> (useOrLogic opts \<or> length (rowScores r ?cms) = length conds) \<and>
     s = rowScore opts (rowScores r ?cms) \<and> s \<le> threshold opts)"
    by (rule accepted_iff)
  have p2: "list_all (\<lambda>cm. listedOnce (snd cm)) ?cms \<longrightarrow>
      (rowScores r ?cms \<noteq> []) = list_ex (matchedBy r) ?cms \<and>
      (length (rowScores r ?cms) = length conds) =
        (length ?cms = length conds \<and> list_all (matchedBy r) ?cms)"
  proof
    assume o: "list_all (\<lambda>cm. listedOnce (snd cm)) ?cms"
    have "(rowScores r ?cms \<noteq> []) = (length (filter (matchedBy r) ?cms) \<noteq> 0)"
      using rowScores_count[OF o, of r] by (metis length_0_conv)
    then have "(rowScores r ?cms \<noteq> []) = list_ex (matchedBy r) ?cms"
      by (simp add: filter_empty_conv list_ex_iff)
    with matched_all[OF o, of r]
    show "(rowScores r ?cms \<noteq> []) = list_ex (matchedBy r) ?cms \<and>
      (length (rowScores r ?cms) = length conds) =
        (length ?cms = length conds \<and> list_all (matchedBy r) ?cms)"
      by (rule_tac conjI)
  qed
  have p3: "\<forall>cm \<in> set ?cms.
      fst cm \<in> set conds \<and> length (snd cm) \<le> maxResultsPerKey opts \<and>
      (\<exists>pattern. snd cm = take (maxResultsPerKey opts)
                             (search opts rightDataset (rightKey (fst cm)) pattern))"
  proof
    fix cm assume "cm \<in> set ?cms"
    then have "(fst cm, snd cm) \<in> set ?cms" by simp
    from conditionMatches_truncated[OF this] show "fst cm \<in> set conds \<and>
      length (snd cm) \<le> maxResultsPerKey opts \<and>
      (\<exists>pattern. snd cm = take (maxResultsPerKey opts)
                             (search opts rightDataset (rightKey (fst cm)) pattern))" .
  qed
  have p4: "sortFuzzyResults opts \<longrightarrow> sorted (map snd ?acc)"
    using accepted_sorted by blast
  have p5: "?cms \<noteq> [] \<and> list_all (\<lambda>m. is_plain_object (mergeRows leftRow (fst m) t)) ?acc \<longrightarrow>
      (\<exists>st' rows. fuzzyLeftStep L search opts rightDataset conds joinType t st leftRow = Inr st' \<and>
         joinedRows st' = joinedRows st @ rows \<and>
         list_all2 (\<lambda>row m. fuzzyJoinedRow opts t leftRow m = Inr row) rows ?acc)"
    using fuzzy_joined_rows[of L search opts rightDataset conds leftRow t joinType st] by blast
  have p6: "includeScoreInResult opts \<and> is_plain_object (mergeRows leftRow r t) \<longrightarrow>
      (\<exists>row. fuzzyJoinedRow opts t leftRow (r, s) = Inr row \<and>
         js_get row ''_fuzzyScore'' = Some (JNum s) \<and>
         (\<forall>k. k \<noteq> ''_fuzzyScore'' \<longrightarrow> js_get row k = js_get (mergeRows leftRow r t) k))"
  proof
    assume a: "includeScoreInResult opts \<and> is_plain_object (mergeRows leftRow r t)"
    then obtain q fs where "mergeRows leftRow r t = JObj q fs"
      by (auto simp: is_plain_object_def split: jsval.splits)
    from score_attached[OF conjunct1[OF a] this]
    show "\<exists>row. fuzzyJoinedRow opts t leftRow (r, s) = Inr row \<and>
         js_get row ''_fuzzyScore'' = Some (JNum s) \<and>
         (\<forall>k. k \<noteq> ''_fuzzyScore'' \<longrightarrow> js_get row k = js_get (mergeRows leftRow r t) k)" .
  qed
  have p7: "\<not> includeScoreInResult opts \<longrightarrow>
      fuzzyJoinedRow opts t leftRow (r, s) = Inr (mergeRows leftRow r t)"
    using score_not_attached[of opts t leftRow "(r, s)"] by simp
  from p1 p2 p3 p4 p5 p6 p7 show ?thesis by (intro conjI)
qed

text \<open>With AND logic, a row found with the scores 1/10 and 1/5 is joined with the score
  3/20.\<close>

theorem fuzzy_join_acceptance_witness:
  "rowScores ex_candidate
     (leftConditionMatches ex_rt (ex_scores (1 / 10) (1 / 5)) ex_and_options [ex_candidate]
        ex_fuzzy_conditions ex_person) = [1 / 10, 1 / 5] \<and>
   \<not> useOrLogic ex_and_options \<and> length ex_fuzzy_conditions = 2 \<and>
   rowScore ex_and_options [1 / 10, 1 / 5] = 3 / 20 \<and> 3 / 20 \<le> threshold ex_and_options \<and>
   (\<exists>r'. same_value_zero r' ex_candidate \<and>
      (r', 3 / 20) \<in> set (acceptedMatches ex_rt (ex_scores (1 / 10) (1 / 5)) ex_and_options
                            [ex_candidate] ex_fuzzy_conditions ex_person)) \<and>
   list_all (\<lambda>cm. listedOnce (snd cm))
     (leftConditionMatches ex_rt (ex_scores (1 / 10) (1 / 5)) ex_and_options [ex_candidate]
        ex_fuzzy_conditions ex_person) \<and>
   list_all (matchedBy ex_candidate)
     (leftConditionMatches ex_rt (ex_scores (1 / 10) (1 / 5)) ex_and_options [ex_candidate]
        ex_fuzzy_conditions ex_person) \<and>
   list_all (\<lambda>cm. length (snd cm) \<le> maxResultsPerKey ex_and_options)
     (leftConditionMatches ex_rt (ex_scores (1 / 10) (1 / 5)) ex_and_options [ex_candidate]
        ex_fuzzy_conditions ex_person) \<and>
   sortFuzzyResults ex_and_options \<and>
   sorted (map snd (acceptedMatches ex_rt (ex_scores (1 / 10) (1 / 5)) ex_and_options
                      [ex_candidate] ex_fuzzy_conditions ex_person)) \<and>
   list_all (\<lambda>m. is_plain_object (mergeRows ex_person (fst m) None))
     (acceptedMatches ex_rt (ex_scores (1 / 10) (1 / 5)) ex_and_options
        [ex_candidate] ex_fuzzy_conditions ex_person) \<and>
   (\<exists>st' rows.
      fuzzyLeftStep ex_rt (ex_scores (1 / 10) (1 / 5)) ex_and_options [ex_candidate]
        ex_fuzzy_conditions Inner None \<lparr> joinedRows = [], matchedRightRows = [] \<rparr> ex_person = Inr st' \<and>
      joinedRows st' = rows \<and>
      list_all2 (\<lambda>row m. fuzzyJoinedRow ex_and_options None ex_person m = Inr row) rows
        (acceptedMatches ex_rt (ex_scores (1 / 10) (1 / 5)) ex_and_options
           [ex_candidate] ex_fuzzy_conditions ex_person)) \<and>
   includeScoreInResult ex_and_options \<and>
   (\<exists>row. fuzzyJoinedRow ex_and_options None ex_person (ex_candidate, 3 / 20) = Inr row \<and>
      js_get row ''_fuzzyScore'' = Some (JNum (3 / 20)) \<and>
      js_get row ''right_name'' = Some (JStr ''Anne'')) \<and>
   fuzzyJoinedRow (ex_and_options\<lparr> includeScoreInResult := False \<rparr>) None ex_person
     (ex_candidate, 3 / 20) = Inr (mergeRows ex_person ex_candidate None)"
proof -
  let ?cms = "leftConditionMatches ex_rt (ex_scores (1 / 10) (1 / 5)) ex_and_options [ex_candidate]
                ex_fuzzy_conditions ex_person"
  let ?acc = "acceptedMatches ex_rt (ex_scores (1 / 10) (1 / 5)) ex_and_options
                [ex_candidate] ex_fuzzy_conditions ex_person"
  let ?st = "\<lparr> joinedRows = [], matchedRightRows = [] \<rparr>"
  have h1: "rowScores ex_candidate ?cms = [1 / 10, 1 / 5]" by code_simp
  have h2: "\<not> useOrLogic ex_and_options" by code_simp
  have h3: "length ex_fuzzy_conditions = 2" by code_simp
  have h4: "rowScore ex_and_options [1 / 10, 1 / 5] = 3 / 20" by code_simp
  have h5: "3 / 20 \<le> threshold ex_and_options" by code_simp
  have h6: "list_all (\<lambda>cm. listedOnce (snd cm)) ?cms" by code_simp
  have h7: "sortFuzzyResults ex_and_options" by code_simp
  have h8: "?cms \<noteq> []" by code_simp
  have h9: "list_all (\<lambda>m. is_plain_object (mergeRows ex_person (fst m) None)) ?acc" by code_simp
  have h10: "includeScoreInResult ex_and_options" by code_simp
  have h11: "is_plain_object (mergeRows ex_person ex_candidate None)" by code_simp
  have h12: "\<not> includeScoreInResult (ex_and_options\<lparr> includeScoreInResult := False \<rparr>)" by simp
  have h13: "js_get (mergeRows ex_person ex_candidate None) ''right_name'' = Some (JStr ''Anne'')"
    by code_simp
  note t = fuzzy_join_acceptance[where r = ex_candidate and s = "3 / 20" and L = ex_rt
      and search = "ex_scores (1 / 10) (1 / 5)" and opts = ex_and_options
      and rightDataset = "[ex_candidate]" and conds = ex_fuzzy_conditions and leftRow = ex_person
      and t = None and joinType = Inner and st = ?st]
  note u = fuzzy_join_acceptance[where r = ex_candidate and s = "3 / 20" and L = ex_rt
      and search = "ex_scores (1 / 10) (1 / 5)"
      and opts = "ex_and_options\<lparr> includeScoreInResult := False \<rparr>"
      and rightDataset = "[ex_candidate]" and conds = ex_fuzzy_conditions and leftRow = ex_person
      and t = None and joinType = Inner and st = ?st]
  from t h1 h2 h3 h4 h5 have c1: "\<exists>r'. same_value_zero r' ex_candidate \<and> (r', 3 / 20) \<in> set ?acc"
    by simp
  from t h6 h1 h3 have c2: "list_all (matchedBy ex_candidate) ?cms" by simp
  from t have "\<forall>cm \<in> set ?cms. length (snd cm) \<le> maxResultsPerKey ex_and_options" by blast
  then have c3: "list_all (\<lambda>cm. length (snd cm) \<le> maxResultsPerKey ex_and_options) ?cms"
    by (simp add: list_all_iff)
  from t h7 have c4: "sorted (map snd ?acc)" by blast
  from t h8 h9 have c5: "\<exists>st' rows.
      fuzzyLeftStep ex_rt (ex_scores (1 / 10) (1 / 5)) ex_and_options [ex_candidate]
        ex_fuzzy_conditions Inner None ?st ex_person = Inr st' \<and>
      joinedRows st' = rows \<and>
      list_all2 (\<lambda>row m. fuzzyJoinedRow ex_and_options None ex_person m = Inr row) rows ?acc"
    by simp
  from t h10 h11 obtain row where
    row: "fuzzyJoinedRow ex_and_options None ex_person (ex_candidate, 3 / 20) = Inr row"
      "js_get row ''_fuzzyScore'' = Some (JNum (3 / 20))"
      "\<forall>k. k \<noteq> ''_fuzzyScore'' \<longrightarrow> js_get row k = js_get (mergeRows ex_person ex_candidate None) k"
    by blast
  from row(3) h13 have "js_get row ''right_name'' = Some (JStr ''Anne'')" by simp
  with row have c6: "\<exists>row. fuzzyJoinedRow ex_and_options None ex_person (ex_candidate, 3 / 20) = Inr row \<and>
      js_get row ''_fuzzyScore'' = Some (JNum (3 / 20)) \<and>
      js_get row ''right_name'' = Some (JStr ''Anne'')" by blast
  from u h12 have c7: "fuzzyJoinedRow (ex_and_options\<lparr> includeScoreInResult := False \<rparr>) None ex_person
     (ex_candidate, 3 / 20) = Inr (mergeRows ex_person ex_candidate None)" by blast
  from h1 h2 h3 h4 h5 c1 h6 c2 c3 h7 c4 h9 c5 h10 c6 c7 show ?thesis by (intro conjI)
qed

text \<open>Claim C4 as stated, with the average under either logic, does not hold. With OR
  logic the score of a row is the one of the last condition that found it. A row found with the scores 1/2 and 1/5 is joined under the threshold 3/10, with the
  score 1/5, although the average 7/20 is above the threshold; a row found with 1/10 and
  2/5 is not joined, although the average 1/4 is within the threshold; and a row found
  with 1/5 and 1/10 is joined with the score 1/10, not the average 3/20.\<close>

theorem fuzzy_or_logic_counterexample:
  "useOrLogic ex_or_options \<and> threshold ex_or_options = 3 / 10 \<and>
   rowScores ex_candidate
     (leftConditionMatches ex_rt (ex_scores (1 / 2) (1 / 5)) ex_or_options [ex_candidate]
        ex_fuzzy_conditions ex_person) = [1 / 2, 1 / 5] \<and>
   \<not> acceptedByAverage ex_or_options ex_fuzzy_conditions [1 / 2, 1 / 5] \<and>
   acceptedMatches ex_rt (ex_scores (1 / 2) (1 / 5)) ex_or_options [ex_candidate]
     ex_fuzzy_conditions ex_person = [(ex_candidate, 1 / 5)] \<and>
   rowScores ex_candidate
     (leftConditionMatches ex_rt (ex_scores (1 / 10) (2 / 5)) ex_or_options [ex_candidate]
        ex_fuzzy_conditions ex_person) = [1 / 10, 2 / 5] \<and>
   acceptedByAverage ex_or_options ex_fuzzy_conditions [1 / 10, 2 / 5] \<and>
   acceptedMatches ex_rt (ex_scores (1 / 10) (2 / 5)) ex_or_options [ex_candidate]
     ex_fuzzy_conditions ex_person = [] \<and>
   rowScores ex_candidate
     (leftConditionMatches ex_rt (ex_scores (1 / 5) (1 / 10)) ex_or_options [ex_candidate]
        ex_fuzzy_conditions ex_person) = [1 / 5, 1 / 10] \<and>
   averageScore [1 / 5, 1 / 10] = 3 / 20 \<and>
   performFuzzyJoin ex_rt (ex_scores (1 / 5) (1 / 10)) [ex_person] [ex_candidate]
     ex_fuzzy_conditions Inner None ex_or_options =
     Inr [JObj (New ''mergeRows'' [Some (Addr 1), Some (Addr 2)])
            [(''name'', JStr ''Ann''), (''city'', JStr ''Rome''),
             (''right_name'', JStr ''Anne''), (''right_city'', JStr ''Roma''),
             (''_fuzzyScore'', JNum (1 / 10))]]"
  by code_simp

end
